theory Spec2Isabelle
  imports Main
begin

section \<open>Data model of the scan package\<close>

text \<open>
  Go errors are values. \<open>ErrStop\<close> is \<open>storer.ErrStop\<close>, the sentinel a callback returns to
  end an iteration early; every other error carries its message. A call either returns
  or aborts with a panic that nothing recovers: the read through a nil pointer, the
  assignment to an entry of a nil map, or \<open>regexp.MustCompile\<close> on a pattern that does not
  compile.
\<close>

datatype Error = ErrStop | Err string

datatype Panic = NilPointerDereference | NilMapAssignment | MustCompile string

datatype 'a Outcome = Returned 'a | Panicked Panic

text \<open>\<open>fdiff.Operation\<close>: the change kind of a chunk.\<close>

datatype Operation = Equal | Add | Delete

record Chunk =
  Type :: Operation
  Content :: string

text \<open>
  A file patch: \<open>f.Files()\<close> gives the from-file and the to-file, each of them nil or a
  file with a path; \<open>fromFile\<close> and \<open>toFile\<close> hold the path of the side that is present.
\<close>

record FilePatch =
  IsBinary :: bool
  fromFile :: "string option"
  toFile :: "string option"
  Chunks :: "Chunk list"

record Patch =
  FilePatches :: "FilePatch list"
  patchString :: string

record Commit =
  Hash :: string
  ParentHashes :: "string list"
  Message :: string
  Author :: string

text \<open>
  The finding. The declaration of \<open>Leak\<close> of the scan package is not part of the
  sources at hand; the fields are those the specification lists for a finding.
\<close>

record Leak =
  Line :: string
  LineNumber :: int
  Offender :: string
  Rule :: string
  LeakCommit :: string
  LeakAuthor :: string
  LeakMessage :: string
  File :: string
  Branch :: string

record Options =
  Threads :: int
  Depth :: int
  Deletion :: bool
  CommitTo :: string
  Verbose :: bool
  PrettyPrint :: bool

text \<open>
  Modelled from the spec: the declaration of the configuration of the scan package is not
  part of the sources at hand. \<open>Commits\<close> is the field \<open>RepoScanner.Scan\<close> reads
  (\<open>rs.cfg.Allowlist.Commits\<close>); \<open>Messages\<close> is the list of allowlisted commit-message
  substrings that the specification's data model gives the allowlist.
\<close>

record Allowlist =
  Commits :: "string list"
  Messages :: "string list"

record Config =
  Allowlist :: Allowlist

text \<open>
  \<open>BaseScanner\<close>, the struct both scanners embed: the options, the configuration and the
  scanner type. Its context \<open>ctx\<close> is read by \<open>timeoutReached\<close> only, see below.
\<close>

type_synonym ScannerType = int

record BaseScanner =
  opts :: Options
  cfg :: Config
  scannerType :: ScannerType

text \<open>The two results of \<open>c.Parent(0)\<close> and the three ways \<open>parent.Patch(c)\<close> can end.\<close>

datatype ParentResult = ParentOk "Commit option" | ParentErr Error

datatype PatchOutcome = PatchOk Patch | PatchErr Error | PatchPanic

text \<open>
  The collaborators of the scanners whose code is not part of the sources at hand are
  parameters of the model, each with the arguments the scanners hand to it:
  \<^item> \<open>timeoutReached env k\<close> is what the \<open>k\<close>-th call of \<open>timeoutReached(ctx)\<close> of a scan
    answers (the deadline is wall-clock time, so the answers are an oracle);
  \<^item> \<open>depthReached\<close> is the helper of that name;
  \<^item> \<open>checkRules\<close> is the matcher as \<open>RepoScanner.Scan\<close> calls it, with the configuration,
    an empty string, the file path, the commit and the content; \<open>checkRules_cs\<close> is the
    matcher as \<open>CommitScanner.Scan\<close> calls it, with the base scanner, the commit, an empty
    string, the file path and the content;
  \<^item> \<open>extractLine\<close> takes the patch text, the leak and the line lookup map;
  \<^item> \<open>filesAtCommitScan\<close> is the scan of a root commit by the \<open>FilesAtCommitScanner\<close> made
    from the base scanner and the commit: its leaks and its error;
  \<^item> \<open>TypeCommitScanner\<close> is the constant of that name;
  \<^item> \<open>logOptions\<close> and \<open>Log\<close> open the history, \<open>Parent0\<close>, \<open>Parents\<close> and \<open>Patch\<close> are the
    history provider. An iterator is the list of what it yields: an error, or a commit
    that may be nil.
\<close>

record Env =
  timeoutReached :: "nat \<Rightarrow> bool"
  depthReached :: "int \<Rightarrow> Options \<Rightarrow> bool"
  checkRules :: "Config \<Rightarrow> string \<Rightarrow> string \<Rightarrow> Commit \<Rightarrow> string \<Rightarrow> Leak list"
  checkRules_cs :: "BaseScanner \<Rightarrow> Commit \<Rightarrow> string \<Rightarrow> string \<Rightarrow> string \<Rightarrow> Leak list"
  extractLine :: "string \<Rightarrow> Leak \<Rightarrow> (string \<rightharpoonup> bool) option \<Rightarrow> int"
  filesAtCommitScan :: "BaseScanner \<Rightarrow> Commit \<Rightarrow> Leak list \<times> Error option"
  TypeCommitScanner :: ScannerType
  logOptions :: "Options \<Rightarrow> Error option"
  Log :: "Error + (Error + Commit option) list"
  Parent0 :: "Commit \<Rightarrow> ParentResult"
  Parents :: "Commit \<Rightarrow> (Error + Commit option) list"
  Patch :: "Commit \<Rightarrow> Commit \<Rightarrow> PatchOutcome"

text \<open>
  Modelled from the spec: the helper \<open>isCommitAllowListed\<close> is called by \<open>RepoScanner.Scan\<close>
  with the commit's hash and \<open>cfg.Allowlist.Commits\<close>, and its code is not part of the
  sources at hand. The specification has the allowlisted commit hashes matched exactly.
\<close>

definition isCommitAllowListed :: "string \<Rightarrow> string list \<Rightarrow> bool" where
  "isCommitAllowListed commitHash allowlistedCommits = (commitHash \<in> set allowlistedCommits)"

text \<open>
  \<open>ForEach\<close> of a go-git commit iterator: it hands each commit to the callback, ends with
  the error of the iterator or of the callback, and turns \<open>ErrStop\<close> into a normal end.
\<close>

fun ForEach :: "('s \<Rightarrow> 'a \<Rightarrow> (Error option \<times> 's) Outcome) \<Rightarrow> (Error + 'a) list \<Rightarrow> 's
    \<Rightarrow> (Error option \<times> 's) Outcome" where
  "ForEach cb [] st = Returned (None, st)"
| "ForEach cb (Inl e # rest) st = Returned (Some e, st)"
| "ForEach cb (Inr c # rest) st =
     (case cb st c of
        Panicked m \<Rightarrow> Panicked m
      | Returned (None, st') \<Rightarrow> ForEach cb rest st'
      | Returned (Some ErrStop, st') \<Rightarrow> Returned (None, st')
      | Returned (Some (Err m), st') \<Rightarrow> Returned (Some (Err m), st'))"

section \<open>The whole-history scan: \<open>RepoScanner.Scan\<close>\<close>

text \<open>
  The scanner: the embedded base scanner and what a scan changes, which is the commit
  counter \<open>cc\<close>, the leaks the aggregator has appended to \<open>rs.leaks\<close>, and the number of
  timeout checks made so far.
\<close>

record RepoScanner =
  rs_base :: BaseScanner
  cc :: int
  leaks :: "Leak list"
  ticks :: nat

text \<open>
  The chunks of one file patch in the worker: the leaks it sends on \<open>leakChan\<close>, in order.
\<close>

fun rsChunks :: "Env \<Rightarrow> BaseScanner \<Rightarrow> Commit \<Rightarrow> FilePatch \<Rightarrow> Chunk list \<Rightarrow> Leak list" where
  "rsChunks env base c f [] = []"
| "rsChunks env base c f (chunk # rest) =
     (if Type chunk = Add \<or> (Deletion (opts base) \<and> Type chunk = Delete)
      then (let filepath =
                  (case fromFile f of
                     Some from_path \<Rightarrow> from_path
                   | None \<Rightarrow> (case toFile f of Some to_path \<Rightarrow> to_path | None \<Rightarrow> ''???''))
            in checkRules env (cfg base) [] filepath c (Content chunk))
      else [])
     @ rsChunks env base c f rest"

text \<open>
  The worker's loop over the file patches. The worker of a commit is run to its end
  where it is dispatched; \<open>receiveLeaks\<close> appends every leak sent to \<open>rs.leaks\<close>.
\<close>

fun rsFilePatches :: "Env \<Rightarrow> Commit \<Rightarrow> FilePatch list \<Rightarrow> RepoScanner \<Rightarrow> RepoScanner" where
  "rsFilePatches env c [] rs = rs"
| "rsFilePatches env c (f # fs) rs =
     (if timeoutReached env (ticks rs) then rs\<lparr>ticks := Suc (ticks rs)\<rparr>
      else if IsBinary f then rsFilePatches env c fs (rs\<lparr>ticks := Suc (ticks rs)\<rparr>)
      else rsFilePatches env c fs
             (rs\<lparr>ticks := Suc (ticks rs),
                leaks := leaks rs @ rsChunks env (rs_base rs) c f (Chunks f)\<rparr>))"

text \<open>
  The callback of \<open>cIter.ForEach\<close>. The deferred \<open>recover\<close> is installed after
  \<open>c.Parent(0)\<close>: a panic of \<open>parent.Patch(c)\<close> ends the callback with its zero result,
  nil. When \<open>Patch\<close> returns an error, the error is logged and the worker is started with
  the nil patch that go-git returns beside an error; \<open>FilePatches()\<close> reads through that
  nil pointer, in a goroutine that has no \<open>recover\<close>, which ends the process.
\<close>

definition rsCallback :: "Env \<Rightarrow> RepoScanner \<Rightarrow> Commit option
    \<Rightarrow> (Error option \<times> RepoScanner) Outcome" where
  "rsCallback env rs c_opt =
     (case c_opt of
        None \<Rightarrow> Returned (Some ErrStop, rs)
      | Some c \<Rightarrow>
         if timeoutReached env (ticks rs) then Returned (Some ErrStop, rs\<lparr>ticks := Suc (ticks rs)\<rparr>)
         else
           let rs1 = rs\<lparr>ticks := Suc (ticks rs)\<rparr> in
           if depthReached env (cc rs1) (opts (rs_base rs1)) then Returned (Some ErrStop, rs1)
           else if isCommitAllowListed (Hash c) (Commits (Allowlist (cfg (rs_base rs1))))
             then Returned (None, rs1)
           else if length (ParentHashes c) = 0 then
             (let rs2 = rs1\<lparr>cc := cc rs1 + 1\<rparr> in
              case filesAtCommitScan env (rs_base rs2) c of
                (found, Some e) \<Rightarrow> Returned (Some e, rs2)
              | (found, None) \<Rightarrow> Returned (None, rs2\<lparr>leaks := leaks rs2 @ found\<rparr>))
           else
             (let rs2 = rs1\<lparr>cc := cc rs1 + 1\<rparr> in
              case Parent0 env c of
                ParentErr e \<Rightarrow> Returned (Some e, rs2)
              | ParentOk parent \<Rightarrow>
                 if timeoutReached env (ticks rs2) then Returned (None, rs2\<lparr>ticks := Suc (ticks rs2)\<rparr>)
                 else
                   let rs3 = rs2\<lparr>ticks := Suc (ticks rs2)\<rparr> in
                   (case parent of
                      None \<Rightarrow> Returned (None, rs3)
                    | Some p \<Rightarrow>
                       (case Patch env p c of
                          PatchPanic \<Rightarrow> Returned (None, rs3)
                        | PatchErr e \<Rightarrow> Panicked NilPointerDereference
                        | PatchOk patch \<Rightarrow>
                           (let rs4 = rsFilePatches env c (FilePatches patch) rs3 in
                            if Hash c = CommitTo (opts (rs_base rs4)) then Returned (Some ErrStop, rs4)
                            else Returned (None, rs4))))))"

text \<open>\<open>Scan\<close>: the error of \<open>ForEach\<close> is dropped, the scan returns nil after the walk.\<close>

definition rsScan :: "Env \<Rightarrow> RepoScanner \<Rightarrow> (Error option \<times> RepoScanner) Outcome" where
  "rsScan env rs =
     (case logOptions env (opts (rs_base rs)) of
        Some e \<Rightarrow> Returned (Some e, rs)
      | None \<Rightarrow>
         (case Log env of
            Inl e \<Rightarrow> Returned (Some e, rs)
          | Inr cIter \<Rightarrow>
             (case ForEach (rsCallback env) cIter (rs\<lparr>cc := 0\<rparr>) of
                Panicked m \<Rightarrow> Panicked m
              | Returned (err, rs') \<Rightarrow> Returned (None, rs'))))"

definition NewRepoScanner :: "BaseScanner \<Rightarrow> RepoScanner" where
  "NewRepoScanner base = \<lparr>rs_base = base, cc = 0, leaks = [], ticks = 0\<rparr>"

definition GetLeaks :: "RepoScanner \<Rightarrow> Leak list" where
  "GetLeaks rs = leaks rs"

section \<open>The single-commit scan: \<open>CommitScanner.Scan\<close>\<close>

record CommitScanner =
  cs_base :: BaseScanner
  commit :: Commit
  cs_leaks :: "Leak list"
  cs_ticks :: nat

text \<open>
  \<open>for _, leak := range leaks { leak.LineNumber = extractLine(...) }\<close>: the loop variable
  of a Go \<open>range\<close> over a slice of structs is a copy of the element, so the assignment
  changes the copy and the slice stays as it is. \<open>lineLookup\<close> is a nil map.
\<close>

fun rangeLeaks :: "Env \<Rightarrow> string \<Rightarrow> Leak list \<Rightarrow> Leak list \<Rightarrow> Leak list" where
  "rangeLeaks env patchContent [] slice = slice"
| "rangeLeaks env patchContent (leak # rest) slice =
     (let leak' = leak\<lparr>LineNumber := extractLine env patchContent leak None\<rparr>
      in rangeLeaks env patchContent rest slice)"

text \<open>The chunks of one file patch; the result is \<open>cs.leaks\<close> after the loop.\<close>

fun csChunks :: "Env \<Rightarrow> BaseScanner \<Rightarrow> Commit \<Rightarrow> string \<Rightarrow> FilePatch \<Rightarrow> Chunk list \<Rightarrow> Leak list
    \<Rightarrow> Leak list" where
  "csChunks env base c patchContent f [] cur = cur"
| "csChunks env base c patchContent f (chunk # rest) cur =
     (if Type chunk = Add \<or> (Deletion (opts base) \<and> Type chunk = Delete)
      then (let filepath =
                  (case fromFile f of
                     Some from_path \<Rightarrow> from_path
                   | None \<Rightarrow> (case toFile f of Some to_path \<Rightarrow> to_path | None \<Rightarrow> ''???''));
                found = checkRules_cs env base c [] filepath (Content chunk);
                found' = rangeLeaks env patchContent found found
            in csChunks env base c patchContent f rest found')
      else csChunks env base c patchContent f rest cur)"

fun csFilePatches :: "Env \<Rightarrow> string \<Rightarrow> FilePatch list \<Rightarrow> CommitScanner \<Rightarrow> CommitScanner" where
  "csFilePatches env patchContent [] cs = cs"
| "csFilePatches env patchContent (f # fs) cs =
     (if timeoutReached env (cs_ticks cs) then cs\<lparr>cs_ticks := Suc (cs_ticks cs)\<rparr>
      else if IsBinary f then csFilePatches env patchContent fs (cs\<lparr>cs_ticks := Suc (cs_ticks cs)\<rparr>)
      else csFilePatches env patchContent fs
             (cs\<lparr>cs_leaks := csChunks env (cs_base cs) (commit cs) patchContent f (Chunks f) (cs_leaks cs),
                cs_ticks := Suc (cs_ticks cs)\<rparr>))"

text \<open>
  The callback of \<open>cs.commit.Parents().ForEach\<close>. The deferred \<open>recover\<close> is installed
  first, so a panic of \<open>parent.Patch\<close> ends the callback with nil.
\<close>

definition csCallback :: "Env \<Rightarrow> CommitScanner \<Rightarrow> Commit option
    \<Rightarrow> (Error option \<times> CommitScanner) Outcome" where
  "csCallback env cs parent =
     (if timeoutReached env (cs_ticks cs) then Returned (None, cs\<lparr>cs_ticks := Suc (cs_ticks cs)\<rparr>)
      else
        let cs1 = cs\<lparr>cs_ticks := Suc (cs_ticks cs)\<rparr> in
        (case parent of
           None \<Rightarrow> Returned (None, cs1)
         | Some p \<Rightarrow>
            (case Patch env p (commit cs1) of
               PatchPanic \<Rightarrow> Returned (None, cs1)
             | PatchErr e \<Rightarrow> Returned (Some (Err ''could not generate Patch''), cs1)
             | PatchOk patch \<Rightarrow>
                Returned (None, csFilePatches env (patchString patch) (FilePatches patch) cs1))))"

text \<open>\<open>Scan\<close> returns \<open>cs.leaks\<close> and the error of the parent loop.\<close>

definition csScan :: "Env \<Rightarrow> CommitScanner \<Rightarrow> (Leak list \<times> Error option) Outcome" where
  "csScan env cs =
     (if length (ParentHashes (commit cs)) = 0
      then Returned (filesAtCommitScan env (cs_base cs) (commit cs))
      else
        (case ForEach (csCallback env) (Parents env (commit cs)) cs of
           Panicked m \<Rightarrow> Panicked m
         | Returned (err, cs') \<Rightarrow> Returned (cs_leaks cs', err)))"

text \<open>\<open>NewCommitScanner\<close> sets the scanner type of the base scanner it embeds.\<close>

definition NewCommitScanner :: "Env \<Rightarrow> BaseScanner \<Rightarrow> Commit \<Rightarrow> CommitScanner" where
  "NewCommitScanner env base c =
     \<lparr>cs_base = base\<lparr>scannerType := TypeCommitScanner env\<rparr>, commit = c, cs_leaks = [], cs_ticks = 0\<rparr>"

section \<open>Configuration loading: \<open>loadToml\<close> of package main\<close>

text \<open>
  The decoded configuration. The two structs named \<open>Regexes\<close> and \<open>Whitelist\<close> inside
  \<open>Config\<close> are records of their own; the fields of the whitelist carry the prefix \<open>w\<close>.
\<close>

record RegexEntry =
  Description :: string
  Regex :: string

record Whitelist =
  wFiles :: "string list"
  wRegexes :: "string list"
  wCommits :: "string list"
  wBranches :: "string list"
  wMessages :: "string list"

record TomlConfig =
  Regexes :: "RegexEntry list"
  Whitelist :: Whitelist

text \<open>
  The package-level variables \<open>loadToml\<close> reads and writes. A Go map variable is nil
  (\<open>None\<close>) until \<open>make\<close> gives it a table; a compiled regular expression is kept as its
  pattern.
\<close>

record Globals =
  regexes :: "(string \<rightharpoonup> string) option"
  singleSearchRegex :: "string option"
  whiteListRegexes :: "string list"
  whiteListFiles :: "string list"
  whiteListCommits :: "(string \<rightharpoonup> bool) option"
  whiteListMessages :: "(string \<rightharpoonup> bool) option"
  whiteListBranches :: "string list"

text \<open>
  The variables as \<open>init\<close> leaves them: \<open>regexes\<close> is the only map that is made.
  \<open>optsGuard\<close> may set \<open>singleSearchRegex\<close> before \<open>loadToml\<close> runs.
\<close>

definition initGlobals :: Globals where
  "initGlobals =
     \<lparr>regexes = Some Map.empty, singleSearchRegex = None, whiteListRegexes = [],
      whiteListFiles = [], whiteListCommits = None, whiteListMessages = None,
      whiteListBranches = []\<rparr>"

text \<open>
  What \<open>loadToml\<close> takes from outside the program: whether \<open>os.Stat\<close> fails on a path, the
  environment variable \<open>GITLEAKS_CONFIG\<close>, the TOML decoder on a file and on the built-in
  default text, and which patterns \<open>regexp.Compile\<close> accepts.
\<close>

record LoadEnv =
  statFails :: "string \<Rightarrow> bool"
  GITLEAKS_CONFIG :: string
  DecodeFile :: "string \<Rightarrow> Error + TomlConfig"
  DecodeDefault :: "Error + TomlConfig"
  regexpCompiles :: "string \<Rightarrow> bool"

fun errorText :: "Error \<Rightarrow> string" where
  "errorText ErrStop = ''stop''"
| "errorText (Err m) = m"

text \<open>\<open>m[k] = v\<close>: the assignment panics when the map is nil.\<close>

definition mapAssign :: "('k \<rightharpoonup> 'v) option \<Rightarrow> 'k \<Rightarrow> 'v \<Rightarrow> (('k \<rightharpoonup> 'v) option) Outcome" where
  "mapAssign m k v =
     (case m of None \<Rightarrow> Panicked NilMapAssignment | Some t \<Rightarrow> Returned (Some (t(k \<mapsto> v))))"

text \<open>The first part of \<open>loadToml\<close>: find the configuration and decode it.\<close>

definition resolveConfig :: "LoadEnv \<Rightarrow> string \<Rightarrow> Error + TomlConfig" where
  "resolveConfig env optsConfigPath =
     (if optsConfigPath \<noteq> [] \<and> statFails env optsConfigPath
      then Inl (Err (''no gitleaks config at '' @ optsConfigPath))
      else
        let configPath = (if optsConfigPath \<noteq> [] then optsConfigPath else GITLEAKS_CONFIG env) in
        if configPath \<noteq> [] then
          (case DecodeFile env configPath of
             Inl e \<Rightarrow> Inl (Err (''problem loading config: '' @ errorText e))
           | Inr config \<Rightarrow> Inr config)
        else
          (case DecodeDefault env of
             Inl e \<Rightarrow> Inl (Err (''problem loading default config: '' @ errorText e))
           | Inr config \<Rightarrow> Inr config))"

text \<open>
  \<open>for _, regex := range config.Regexes { regexes[regex.Description] =
  regexp.MustCompile(regex.Regex) }\<close>: the right-hand side is evaluated first.
\<close>

fun loadRegexes :: "LoadEnv \<Rightarrow> RegexEntry list \<Rightarrow> (string \<rightharpoonup> string) option
    \<Rightarrow> ((string \<rightharpoonup> string) option) Outcome" where
  "loadRegexes env [] m = Returned m"
| "loadRegexes env (regex # rest) m =
     (if \<not> regexpCompiles env (Regex regex) then Panicked (MustCompile (Regex regex))
      else
        (case mapAssign m (Description regex) (Regex regex) of
           Panicked p \<Rightarrow> Panicked p
         | Returned m' \<Rightarrow> loadRegexes env rest m'))"

text \<open>\<open>for _, x := range xs { whiteListCommits[x] = true }\<close>, for the commits and the messages.\<close>

fun allowEntries :: "string list \<Rightarrow> (string \<rightharpoonup> bool) option \<Rightarrow> ((string \<rightharpoonup> bool) option) Outcome" where
  "allowEntries [] m = Returned m"
| "allowEntries (x # rest) m =
     (case mapAssign m x True of
        Panicked p \<Rightarrow> Panicked p
      | Returned m' \<Rightarrow> allowEntries rest m')"

text \<open>\<open>for _, regex := range xs { ys = append(ys, regexp.MustCompile(regex)) }\<close>.\<close>

fun compileAll :: "LoadEnv \<Rightarrow> string list \<Rightarrow> string list \<Rightarrow> (string list) Outcome" where
  "compileAll env [] compiled = Returned compiled"
| "compileAll env (regex # rest) compiled =
     (if \<not> regexpCompiles env regex then Panicked (MustCompile regex)
      else compileAll env rest (compiled @ [regex]))"

text \<open>The second part of \<open>loadToml\<close>, from \<open>// load up regexes\<close> to the end.\<close>

definition loadConfig :: "LoadEnv \<Rightarrow> TomlConfig \<Rightarrow> Globals \<Rightarrow> (Error option \<times> Globals) Outcome" where
  "loadConfig env config g =
     (case (case singleSearchRegex g of
              Some re \<Rightarrow> mapAssign (regexes g) ''singleSearch'' re
            | None \<Rightarrow> loadRegexes env (Regexes config) (regexes g)) of
        Panicked p \<Rightarrow> Panicked p
      | Returned rules1 \<Rightarrow>
         (case allowEntries (wCommits (Whitelist config)) (whiteListCommits g) of
            Panicked p \<Rightarrow> Panicked p
          | Returned commits1 \<Rightarrow>
             (case allowEntries (wMessages (Whitelist config)) commits1 of
                Panicked p \<Rightarrow> Panicked p
              | Returned commits2 \<Rightarrow>
                 (case compileAll env (wFiles (Whitelist config)) (whiteListFiles g) of
                    Panicked p \<Rightarrow> Panicked p
                  | Returned files1 \<Rightarrow>
                     (case compileAll env (wRegexes (Whitelist config)) (whiteListRegexes g) of
                        Panicked p \<Rightarrow> Panicked p
                      | Returned regexes1 \<Rightarrow>
                         Returned (None,
                           g\<lparr>regexes := rules1, whiteListRegexes := regexes1, whiteListFiles := files1,
                             whiteListCommits := commits2,
                             whiteListBranches := wBranches (Whitelist config)\<rparr>))))))"

definition loadToml :: "LoadEnv \<Rightarrow> string \<Rightarrow> Globals \<Rightarrow> (Error option \<times> Globals) Outcome" where
  "loadToml env optsConfigPath g =
     (case resolveConfig env optsConfigPath of
        Inl e \<Rightarrow> Returned (Some e, g)
      | Inr config \<Rightarrow> loadConfig env config g)"

section \<open>The wording of the claims\<close>

text \<open>
  The chunks the scanners look at, as the specification words it: additions, and
  deletions when deletions are included.
\<close>

definition selected :: "Options \<Rightarrow> Chunk \<Rightarrow> bool" where
  "selected options chunk = (Type chunk = Add \<or> (Type chunk = Delete \<and> Deletion options))"

text \<open>The path of a file patch, the from-path first: from-path, else to-path, else \<open>???\<close>.\<close>

definition fromFirstPath :: "FilePatch \<Rightarrow> string" where
  "fromFirstPath f =
     (case fromFile f of Some p \<Rightarrow> p | None \<Rightarrow> (case toFile f of Some q \<Rightarrow> q | None \<Rightarrow> ''???''))"

text \<open>
  The file patches of a patch that a scanner takes up before the timeout is reached, when
  \<open>k\<close> timeout checks have been made before the first of them; and the chunks that are
  then scanned, each with its file patch: the selected chunks of the non-binary file
  patches taken up, in the order of the patch.
\<close>

fun taken :: "Env \<Rightarrow> nat \<Rightarrow> FilePatch list \<Rightarrow> FilePatch list" where
  "taken env k [] = []"
| "taken env k (f # fs) = (if timeoutReached env k then [] else f # taken env (Suc k) fs)"

definition scannedChunks :: "Env \<Rightarrow> Options \<Rightarrow> nat \<Rightarrow> FilePatch list \<Rightarrow> (FilePatch \<times> Chunk) list" where
  "scannedChunks env options k fs =
     concat (map (\<lambda>f. map (Pair f) (filter (selected options) (Chunks f)))
                 (filter (\<lambda>f. \<not> IsBinary f) (taken env k fs)))"

text \<open>A scanner whose allowlist holds the commit-message substrings \<open>ms\<close>.\<close>

definition withMessages :: "string list \<Rightarrow> RepoScanner \<Rightarrow> RepoScanner" where
  "withMessages ms rs =
     rs\<lparr>rs_base := (rs_base rs)\<lparr>cfg := (cfg (rs_base rs))\<lparr>Allowlist :=
          (Allowlist (cfg (rs_base rs)))\<lparr>Messages := ms\<rparr>\<rparr>\<rparr>\<rparr>"

text \<open>\<open>strings.HasPrefix\<close> and \<open>strings.Contains\<close>.\<close>

fun hasPrefix :: "string \<Rightarrow> string \<Rightarrow> bool" where
  "hasPrefix s [] = True"
| "hasPrefix [] (p # ps) = False"
| "hasPrefix (x # xs) (p # ps) = (x = p \<and> hasPrefix xs ps)"

fun Contains :: "string \<Rightarrow> string \<Rightarrow> bool" where
  "Contains [] substr = hasPrefix [] substr"
| "Contains (x # xs) substr = (hasPrefix (x # xs) substr \<or> Contains xs substr)"

section \<open>A small history and three configurations\<close>

text \<open>
  A repository of six commits on which the scanners are run below. The matcher of the
  example reports a chunk whose content starts with \<open>AKIA\<close>, with line number 0; the line
  number \<open>extractLine\<close> gives is the line of the patch text on which the matched line
  first occurs, counted from 1.
\<close>

definition newline :: char where
  "newline = CHR 0x0A"

fun firstLineOf :: "string \<Rightarrow> string \<Rightarrow> int \<Rightarrow> int" where
  "firstLineOf [] needle n = 0"
| "firstLineOf (x # xs) needle n =
     (if hasPrefix (x # xs) needle then n
      else firstLineOf xs needle (if x = newline then n + 1 else n))"

definition exampleCheckRules :: "string \<Rightarrow> Commit \<Rightarrow> string \<Rightarrow> Leak list" where
  "exampleCheckRules filepath c content =
     (if hasPrefix content ''AKIA''
      then [\<lparr>Line = content, LineNumber = 0, Offender = content, Rule = ''AWS'',
              LeakCommit = Hash c, LeakAuthor = Author c, LeakMessage = Message c,
              File = filepath, Branch = []\<rparr>]
      else [])"

definition commit0 :: Commit where
  "commit0 = \<lparr>Hash = ''c0'', ParentHashes = [], Message = ''initial'', Author = ''ann''\<rparr>"

definition commit1 :: Commit where
  "commit1 = \<lparr>Hash = ''c1'', ParentHashes = [''c0''], Message = ''adding tests'', Author = ''ann''\<rparr>"

definition commit2 :: Commit where
  "commit2 = \<lparr>Hash = ''c2'', ParentHashes = [''c0''], Message = ''rename'', Author = ''bob''\<rparr>"

definition commit3 :: Commit where
  "commit3 = \<lparr>Hash = ''c3'', ParentHashes = [''c1'', ''c2''], Message = ''merge'', Author = ''bob''\<rparr>"

definition commit4 :: Commit where
  "commit4 = \<lparr>Hash = ''c4'', ParentHashes = [''gone''], Message = ''shallow'', Author = ''bob''\<rparr>"

definition commit5 :: Commit where
  "commit5 = \<lparr>Hash = ''c5'', ParentHashes = [''c0''], Message = ''big diff'', Author = ''bob''\<rparr>"

definition renamedFile :: FilePatch where
  "renamedFile = \<lparr>IsBinary = False, fromFile = Some ''old.txt'', toFile = Some ''new.txt'',
     Chunks = [\<lparr>Type = Equal, Content = ''AKIA0''\<rparr>, \<lparr>Type = Add, Content = ''AKIA1''\<rparr>]\<rparr>"

definition keysFile :: FilePatch where
  "keysFile = \<lparr>IsBinary = False, fromFile = None, toFile = Some ''keys.txt'',
     Chunks = [\<lparr>Type = Add, Content = ''AKIA2''\<rparr>, \<lparr>Type = Delete, Content = ''AKIA3''\<rparr>,
               \<lparr>Type = Add, Content = ''plain''\<rparr>]\<rparr>"

definition imageFile :: FilePatch where
  "imageFile = \<lparr>IsBinary = True, fromFile = None, toFile = Some ''logo.png'',
     Chunks = [\<lparr>Type = Add, Content = ''AKIA4''\<rparr>]\<rparr>"

definition patch01 :: Patch where
  "patch01 = \<lparr>FilePatches = [keysFile],
     patchString = ''+++ b/keys.txt'' @ [newline] @ ''@@'' @ [newline] @ ''+AKIA2''\<rparr>"

definition patch02 :: Patch where
  "patch02 = \<lparr>FilePatches = [renamedFile],
     patchString = ''+++ b/new.txt'' @ [newline] @ '' AKIA0'' @ [newline] @ ''+AKIA1''\<rparr>"

text \<open>
  The parent of \<open>c4\<close> cannot be resolved, and the diff of \<open>c5\<close> panics. The depth limit
  of the example is reached when the counter is at least a non-zero \<open>Depth\<close>. The matcher
  of the example looks at the file path, the commit and the content only.
\<close>

definition exampleEnv :: Env where
  "exampleEnv =
     \<lparr>timeoutReached = (\<lambda>k. False),
      depthReached = (\<lambda>n options. Depth options \<noteq> 0 \<and> Depth options \<le> n),
      checkRules = (\<lambda>config repo filepath c content. exampleCheckRules filepath c content),
      checkRules_cs = (\<lambda>base c repo filepath content. exampleCheckRules filepath c content),
      extractLine = (\<lambda>patchContent leak lineLookup. firstLineOf patchContent (Line leak) 1),
      filesAtCommitScan = (\<lambda>base c. ([], None)),
      TypeCommitScanner = 2,
      logOptions = (\<lambda>options. None),
      Log = Inr [Inr (Some commit3), Inr (Some commit2), Inr (Some commit1), Inr (Some commit0)],
      Parent0 = (\<lambda>c. if Hash c = ''c4'' then ParentErr (Err ''object not found'')
                        else if Hash c = ''c3'' then ParentOk (Some commit1)
                        else ParentOk (Some commit0)),
      Parents = (\<lambda>c. if Hash c = ''c3'' then [Inr (Some commit1), Inr (Some commit2)]
                        else if Hash c = ''c4'' then [Inl (Err ''object not found'')]
                        else [Inr (Some commit0)]),
      Patch = (\<lambda>p c. if Hash c = ''c1'' then PatchOk patch01
                        else if Hash c = ''c2'' then PatchOk patch02
                        else if Hash c = ''c3'' \<and> Hash p = ''c1'' then PatchOk patch02
                        else if Hash c = ''c3'' \<and> Hash p = ''c2'' then PatchOk patch01
                        else PatchPanic)\<rparr>"

text \<open>The same repository scanned against a deadline that passes after two timeout checks.\<close>

definition timedOutEnv :: Env where
  "timedOutEnv = exampleEnv\<lparr>timeoutReached := (\<lambda>k. 2 \<le> k)\<rparr>"

definition exampleOptions :: Options where
  "exampleOptions = \<lparr>Threads = 1, Depth = 0, Deletion = False, CommitTo = [],
     Verbose = False, PrettyPrint = False\<rparr>"

definition exampleConfig :: Config where
  "exampleConfig = \<lparr>Allowlist = \<lparr>Commits = [''c2''], Messages = [''tests'']\<rparr>\<rparr>"

definition exampleBase :: BaseScanner where
  "exampleBase = \<lparr>opts = exampleOptions, cfg = exampleConfig, scannerType = 0\<rparr>"

text \<open>
  Three decoded configurations: one whose only rule pattern is an unclosed parenthesis,
  one with an allowlisted commit message, one without allowlist entries.
\<close>

definition brokenConfig :: TomlConfig where
  "brokenConfig =
     \<lparr>Regexes = [\<lparr>Description = ''broken'', Regex = ''(''\<rparr>],
      Whitelist = \<lparr>wFiles = [], wRegexes = [], wCommits = [''BADHA5H1''], wBranches = [],
                   wMessages = []\<rparr>\<rparr>"

definition allowConfig :: TomlConfig where
  "allowConfig =
     \<lparr>Regexes = [\<lparr>Description = ''AWS'', Regex = ''AKIA[0-9A-Z]{16}''\<rparr>],
      Whitelist = \<lparr>wFiles = [], wRegexes = [], wCommits = [], wBranches = [],
                   wMessages = [''adding tests'']\<rparr>\<rparr>"

definition plainConfig :: TomlConfig where
  "plainConfig =
     \<lparr>Regexes = [\<lparr>Description = ''AWS'', Regex = ''AKIA[0-9A-Z]{16}''\<rparr>],
      Whitelist = \<lparr>wFiles = [], wRegexes = [], wCommits = [], wBranches = [], wMessages = []\<rparr>\<rparr>"

definition exampleLoadEnv :: LoadEnv where
  "exampleLoadEnv =
     \<lparr>statFails = (\<lambda>path. False),
      GITLEAKS_CONFIG = [],
      DecodeFile = (\<lambda>path. if path = ''broken.toml'' then Inr brokenConfig else Inr allowConfig),
      DecodeDefault = Inr plainConfig,
      regexpCompiles = (\<lambda>pattern. pattern \<noteq> ''('')\<rparr>"

section \<open>Facts about the model\<close>

lemmas example_defs =
  exampleEnv_def timedOutEnv_def exampleOptions_def exampleConfig_def exampleBase_def
  exampleCheckRules_def
  commit0_def commit1_def commit2_def commit3_def commit4_def commit5_def
  renamedFile_def keysFile_def imageFile_def patch01_def patch02_def newline_def
  NewRepoScanner_def NewCommitScanner_def

lemmas load_defs =
  brokenConfig_def allowConfig_def plainConfig_def exampleLoadEnv_def initGlobals_def
  loadToml_def loadConfig_def resolveConfig_def mapAssign_def

subsection \<open>The chunk loops\<close>

lemma rsChunks_filter:
  "rsChunks env base c f chs =
     concat (map (\<lambda>ch. checkRules env (cfg base) [] (fromFirstPath f) c (Content ch))
                 (filter (selected (opts base)) chs))"
  by (induction chs) (auto simp: selected_def fromFirstPath_def)

text \<open>The loop over the leaks of a chunk never changes the slice it ranges over.\<close>

lemma rangeLeaks_id: "rangeLeaks env patchContent xs slice = slice"
  by (induction xs) simp_all

lemma csChunks_filter:
  "csChunks env base c patchContent f chs cur =
     (case rev (filter (selected (opts base)) chs) of
        [] \<Rightarrow> cur
      | ch # earlier \<Rightarrow> checkRules_cs env base c [] (fromFirstPath f) (Content ch))"
  by (induction chs arbitrary: cur)
    (auto simp: selected_def fromFirstPath_def rangeLeaks_id split: list.splits)

subsection \<open>The file-patch loops\<close>

lemma scannedChunks_Nil: "scannedChunks env options k [] = []"
  by (simp add: scannedChunks_def)

lemma scannedChunks_Cons:
  "scannedChunks env options k (f # fs) =
     (if timeoutReached env k then []
      else (if IsBinary f then [] else map (Pair f) (filter (selected options) (Chunks f)))
           @ scannedChunks env options (Suc k) fs)"
  by (simp add: scannedChunks_def)

lemma scannedChunks_member:
  "(f, ch) \<in> set (scannedChunks env options k fs) \<longleftrightarrow>
     f \<in> set (taken env k fs) \<and> \<not> IsBinary f \<and> ch \<in> set (Chunks f)
     \<and> (Type ch = Add \<or> (Type ch = Delete \<and> Deletion options))"
  by (auto simp: scannedChunks_def selected_def)

lemma taken_all:
  "\<forall>i < length fs. \<not> timeoutReached env (k + i) \<Longrightarrow> taken env k fs = fs"
proof (induction fs arbitrary: k)
  case Nil
  show ?case by simp
next
  case (Cons f fs)
  from Cons.prems have now: "\<not> timeoutReached env k" by force
  have "\<forall>i < length fs. \<not> timeoutReached env (Suc k + i)"
  proof (intro allI impI)
    fix i assume "i < length fs"
    with Cons.prems have "\<not> timeoutReached env (k + Suc i)" by force
    then show "\<not> timeoutReached env (Suc k + i)" by simp
  qed
  from Cons.IH [OF this] now show ?case by simp
qed

lemma rsFilePatches_base: "rs_base (rsFilePatches env c fs rs) = rs_base rs"
  by (induction fs arbitrary: rs) simp_all

lemma rsFilePatches_leaks:
  "leaks (rsFilePatches env c fs rs) =
     leaks rs @ concat (map (\<lambda>(f, ch). checkRules env (cfg (rs_base rs)) [] (fromFirstPath f) c (Content ch))
                            (scannedChunks env (opts (rs_base rs)) (ticks rs) fs))"
proof (induction fs arbitrary: rs)
  case Nil
  show ?case by (simp add: scannedChunks_Nil)
next
  case (Cons f fs)
  show ?case
    by (simp add: Cons.IH scannedChunks_Cons rsChunks_filter comp_def)
qed

lemma csFilePatches_leaks:
  "cs_leaks (csFilePatches env patchContent fs cs) =
     (case rev (scannedChunks env (opts (cs_base cs)) (cs_ticks cs) fs) of
        [] \<Rightarrow> cs_leaks cs
      | (f, ch) # earlier \<Rightarrow> checkRules_cs env (cs_base cs) (commit cs) [] (fromFirstPath f) (Content ch))"
proof (induction fs arbitrary: cs)
  case Nil
  show ?case by (simp add: scannedChunks_Nil)
next
  case (Cons f fs)
  show ?case
    by (auto simp: Cons.IH scannedChunks_Cons csChunks_filter rev_map split: list.splits)
qed

subsection \<open>The commit counter\<close>

lemma rsFilePatches_cc: "cc (rsFilePatches env c fs rs) = cc rs"
  by (induction fs arbitrary: rs) simp_all

lemma rsCallback_cc:
  assumes "rsCallback env rs (Some c) = Returned (e, rs')"
    and "\<not> timeoutReached env (ticks rs)" and "\<not> depthReached env (cc rs) (opts (rs_base rs))"
  shows "cc rs' = (if isCommitAllowListed (Hash c) (Commits (Allowlist (cfg (rs_base rs))))
                   then cc rs else cc rs + 1)"
  using assms
  by (auto simp: rsCallback_def Let_def rsFilePatches_cc
      split: if_splits prod.splits option.splits ParentResult.splits PatchOutcome.splits)

subsection \<open>The line number has no way into the result\<close>

lemma csChunks_extractLine:
  "csChunks (env\<lparr>extractLine := x\<rparr>) base c patchContent f chs cur =
     csChunks env base c patchContent f chs cur"
  by (induction chs arbitrary: cur) (simp_all add: Let_def rangeLeaks_id)

lemma csFilePatches_extractLine:
  "csFilePatches (env\<lparr>extractLine := x\<rparr>) patchContent fs cs =
     csFilePatches env patchContent fs cs"
  by (induction fs arbitrary: cs) (simp_all add: csChunks_extractLine)

lemma csCallback_extractLine:
  "csCallback (env\<lparr>extractLine := x\<rparr>) = csCallback env"
  by (intro ext) (auto simp: csCallback_def Let_def csFilePatches_extractLine
      split: option.splits PatchOutcome.splits)

text \<open>Whatever \<open>extractLine\<close> computes, the single-commit scan returns the same leaks.\<close>

lemma csScan_extractLine:
  "csScan (env\<lparr>extractLine := x\<rparr>) cs = csScan env cs"
  by (simp add: csScan_def csCallback_extractLine)

subsection \<open>Scans that return\<close>

lemma rsCallback_returns:
  assumes "\<And>p c e. Patch env p c \<noteq> PatchErr e"
  shows "\<exists>r. rsCallback env rs c = Returned r"
  using assms
  by (auto simp: rsCallback_def Let_def
      split: option.splits prod.splits ParentResult.splits PatchOutcome.splits)

lemma ForEach_returns:
  assumes "\<And>st c. \<exists>r. cb st c = Returned r"
  shows "\<exists>r. ForEach cb xs st = Returned r"
proof (induction xs arbitrary: st)
  case Nil
  show ?case by simp
next
  case (Cons x xs)
  show ?case
  proof (cases x)
    case (Inl e)
    then show ?thesis by simp
  next
    case (Inr c)
    from assms [of st c] obtain err st' where r: "cb st c = Returned (err, st')"
      by (cases "cb st c") auto
    show ?thesis
    proof (cases err)
      case None
      with Inr r Cons.IH [of st'] show ?thesis by simp
    next
      case (Some e)
      with Inr r show ?thesis by (cases e) simp_all
    qed
  qed
qed

lemma csCallback_returns: "\<exists>r. csCallback env cs parent = Returned r"
  by (simp add: csCallback_def Let_def split: option.splits PatchOutcome.splits)

lemma csScan_returns: "\<exists>r. csScan env cs = Returned r"
proof -
  obtain r where "ForEach (csCallback env) (Parents env (commit cs)) cs = Returned r"
    using ForEach_returns [of "csCallback env"] csCallback_returns by blast
  then show ?thesis by (cases r) (simp add: csScan_def)
qed

lemma rsScan_returns:
  assumes "\<And>p c e. Patch env p c \<noteq> PatchErr e"
  shows "\<exists>r. rsScan env rs = Returned r"
proof (cases "logOptions env (opts (rs_base rs))")
  case (Some e)
  then show ?thesis by (simp add: rsScan_def)
next
  case None
  show ?thesis
  proof (cases "Log env")
    case (Inl e)
    with None show ?thesis by (simp add: rsScan_def)
  next
    case (Inr cIter)
    obtain r where "ForEach (rsCallback env) cIter (rs\<lparr>cc := 0\<rparr>) = Returned r"
      using ForEach_returns [of "rsCallback env"] rsCallback_returns [OF assms] by blast
    with None Inr show ?thesis by (cases r) (simp add: rsScan_def)
  qed
qed

subsection \<open>Writing into a nil map\<close>

lemma allowEntries_nil_map:
  "allowEntries xs None = (if xs = [] then Returned None else Panicked NilMapAssignment)"
  by (cases xs) (simp_all add: mapAssign_def)

lemma loadRegexes_compile:
  "\<forall>r \<in> set rs. regexpCompiles env (Regex r) \<Longrightarrow>
     \<exists>t'. loadRegexes env rs (Some t) = Returned (Some t')"
  by (induction rs arbitrary: t) (auto simp: mapAssign_def)

lemma loadRegexes_reject:
  "\<not> (\<forall>r \<in> set rs. regexpCompiles env (Regex r)) \<Longrightarrow>
     \<exists>pat. loadRegexes env rs (Some t) = Panicked (MustCompile pat) \<and> \<not> regexpCompiles env pat"
  by (induction rs arbitrary: t) (auto simp: mapAssign_def)

lemma loadConfig_nil_map:
  assumes "wCommits (Whitelist config) \<noteq> [] \<or> wMessages (Whitelist config) \<noteq> []"
    and "whiteListCommits g = None"
    and "(case singleSearchRegex g of
              Some re \<Rightarrow> mapAssign (regexes g) ''singleSearch'' re
            | None \<Rightarrow> loadRegexes env (Regexes config) (regexes g)) = Returned rx"
  shows "loadConfig env config g = Panicked NilMapAssignment"
  using assms by (auto simp: loadConfig_def allowEntries_nil_map)

lemma loadConfig_returns_empty:
  assumes "loadConfig env config g = Returned r" and "whiteListCommits g = None"
  shows "wCommits (Whitelist config) = [] \<and> wMessages (Whitelist config) = []"
  using assms
  by (auto simp: loadConfig_def allowEntries_nil_map split: Outcome.splits if_splits)

section \<open>The claims\<close>

subsection \<open>C1: the file path of a finding\<close>

text \<open>
  Claim C1 has the path taken from the to-path when it is present. The scanners ask for
  the from-path first: for a renamed file, with both sides present, the findings of the
  whole-history scan and of the single-commit scan carry the old path, not the to-path.
\<close>

theorem filepath_to_first_counterexample:
  "map File (rsChunks exampleEnv exampleBase commit2 renamedFile (Chunks renamedFile)) = [''old.txt'']
   \<and> map File (csChunks exampleEnv exampleBase commit2 (patchString patch02) renamedFile
                 (Chunks renamedFile) []) = [''old.txt'']
   \<and> toFile renamedFile = Some ''new.txt''"
  by (simp add: example_defs)

text \<open>
  Claim C1, amended: for every non-binary file patch processed by the whole-history scan
  or the single-commit scan, the path handed to the matcher for each scanned chunk is the
  patch's from-path when present, else its to-path, else the placeholder \<open>???\<close>. The
  whole-history worker sends the matches of all scanned chunks of the file patch; the
  single-commit scan keeps those of the last scanned chunk.
\<close>

theorem filepath_from_first:
  "rsChunks env base c f chs =
     concat (map (\<lambda>ch. checkRules env (cfg base) [] (fromFirstPath f) c (Content ch))
                 (filter (selected (opts base)) chs))
   \<and> csChunks env base c patchContent f chs cur =
     (case rev (filter (selected (opts base)) chs) of
        [] \<Rightarrow> cur
      | ch # earlier \<Rightarrow> checkRules_cs env base c [] (fromFirstPath f) (Content ch))
   \<and> (\<not> IsBinary f \<and> \<not> timeoutReached env (ticks rs) \<longrightarrow>
        rsFilePatches env c [f] rs =
          rs\<lparr>leaks := leaks rs @ concat (map (\<lambda>ch. checkRules env (cfg (rs_base rs)) []
                                                 (fromFirstPath f) c (Content ch))
                                      (filter (selected (opts (rs_base rs))) (Chunks f))),
             ticks := Suc (ticks rs)\<rparr>)
   \<and> (\<not> IsBinary f \<and> \<not> timeoutReached env (cs_ticks cs) \<longrightarrow>
        csFilePatches env patchContent [f] cs =
          cs\<lparr>cs_leaks := (case rev (filter (selected (opts (cs_base cs))) (Chunks f)) of
                            [] \<Rightarrow> cs_leaks cs
                          | ch # earlier \<Rightarrow> checkRules_cs env (cs_base cs) (commit cs) []
                                             (fromFirstPath f) (Content ch)),
             cs_ticks := Suc (cs_ticks cs)\<rparr>)"
  by (simp add: rsChunks_filter csChunks_filter)

theorem filepath_from_first_witness:
  "map File (rsChunks exampleEnv exampleBase commit1 keysFile (Chunks keysFile)) = [''keys.txt'']
   \<and> map File (leaks (rsFilePatches exampleEnv commit2 [renamedFile] (NewRepoScanner exampleBase)))
       = [''old.txt'']
   \<and> map File (cs_leaks (csFilePatches exampleEnv (patchString patch02) [renamedFile]
        (NewCommitScanner exampleEnv exampleBase commit2))) = [''old.txt'']"
  using filepath_from_first [where env = exampleEnv and base = exampleBase and c = commit1
      and f = keysFile and chs = "Chunks keysFile"]
    filepath_from_first [where env = exampleEnv and c = commit2
      and f = renamedFile and rs = "NewRepoScanner exampleBase"
      and cs = "NewCommitScanner exampleEnv exampleBase commit2"
      and patchContent = "patchString patch02"]
  by (simp add: example_defs selected_def fromFirstPath_def)

subsection \<open>C2: the commit counter and the allowlist\<close>

text \<open>
  Claim C2 has the counter incremented for a commit that the allowlist skips. The
  callback returns for an allowlisted hash before it reaches \<open>cc++\<close>: after the allowlisted
  commit \<open>c2\<close> the counter is still 0. With a depth limit of 1 the walk over \<open>c2, c1, c3\<close>
  therefore still examines \<open>c1\<close> and reports its finding, and stops at \<open>c3\<close>.
\<close>

theorem allowlisted_commit_counted_counterexample:
  "rsCallback exampleEnv (NewRepoScanner exampleBase) (Some commit2)
     = Returned (None, \<lparr>rs_base = exampleBase, cc = 0, leaks = [], ticks = 1\<rparr>)
   \<and> isCommitAllowListed (Hash commit2) (Commits (Allowlist (cfg exampleBase)))
   \<and> rsScan (exampleEnv\<lparr>Log := Inr [Inr (Some commit2), Inr (Some commit1), Inr (Some commit3)]\<rparr>)
        (NewRepoScanner (exampleBase\<lparr>opts := exampleOptions\<lparr>Depth := 1\<rparr>\<rparr>)) =
       Returned (None, \<lparr>rs_base = exampleBase\<lparr>opts := exampleOptions\<lparr>Depth := 1\<rparr>\<rparr>, cc = 1,
         leaks = [\<lparr>Line = ''AKIA2'', LineNumber = 0, Offender = ''AKIA2'', Rule = ''AWS'',
                   LeakCommit = ''c1'', LeakAuthor = ''ann'', LeakMessage = ''adding tests'',
                   File = ''keys.txt'', Branch = []\<rparr>],
         ticks = 5\<rparr>)"
  by (simp add: example_defs rsScan_def rsCallback_def isCommitAllowListed_def)

text \<open>
  Claim C2, amended: in the whole-history scan, whenever the callback is entered for a
  commit (no timeout, depth not reached) and returns, the counter used for the depth
  check has grown by one if the commit's hash is not in the commit allowlist, root
  commits and commits whose parent or diff fails included, and is unchanged if the
  hash is allowlisted: an allowlist skip exempts the commit from depth counting.
\<close>

theorem commit_counter:
  assumes "rsCallback env rs (Some c) = Returned (e, rs')"
    and "\<not> timeoutReached env (ticks rs)" and "\<not> depthReached env (cc rs) (opts (rs_base rs))"
  shows "cc rs' = (if isCommitAllowListed (Hash c) (Commits (Allowlist (cfg (rs_base rs))))
                   then cc rs else cc rs + 1)"
  using assms by (rule rsCallback_cc)

theorem commit_counter_witness:
  "rsCallback exampleEnv (NewRepoScanner exampleBase) (Some commit4)
     = Returned (Some (Err ''object not found''), \<lparr>rs_base = exampleBase, cc = 1, leaks = [], ticks = 1\<rparr>)
   \<and> cc \<lparr>rs_base = exampleBase, cc = 1, leaks = [], ticks = 1\<rparr> = cc (NewRepoScanner exampleBase) + 1"
proof -
  have r: "rsCallback exampleEnv (NewRepoScanner exampleBase) (Some commit4)
     = Returned (Some (Err ''object not found''), \<lparr>rs_base = exampleBase, cc = 1, leaks = [], ticks = 1\<rparr>)"
    by (simp add: example_defs rsCallback_def isCommitAllowListed_def)
  have t: "\<not> timeoutReached exampleEnv (ticks (NewRepoScanner exampleBase))"
    by (simp add: example_defs)
  have d: "\<not> depthReached exampleEnv (cc (NewRepoScanner exampleBase))
              (opts (rs_base (NewRepoScanner exampleBase)))"
    by (simp add: example_defs)
  from commit_counter [OF r t d] r show ?thesis
    by (simp add: example_defs isCommitAllowListed_def)
qed

subsection \<open>C3: the line number of a finding of the single-commit scan\<close>

text \<open>
  Claim C3: every finding the single-commit scan returns carries the line number
  reconstructed from the patch text. The scan of \<open>c2\<close> returns its finding with the line
  number 0 the matcher left, although \<open>extractLine\<close> places the matched line on line 3 of
  the patch text: the number is assigned to the loop's copy of the finding.
\<close>

theorem line_number_not_backfilled:
  "csScan exampleEnv (NewCommitScanner exampleEnv exampleBase commit2) =
     Returned ([\<lparr>Line = ''AKIA1'', LineNumber = 0, Offender = ''AKIA1'', Rule = ''AWS'',
                 LeakCommit = ''c2'', LeakAuthor = ''bob'', LeakMessage = ''rename'',
                 File = ''old.txt'', Branch = []\<rparr>], None)
   \<and> extractLine exampleEnv (patchString patch02)
        \<lparr>Line = ''AKIA1'', LineNumber = 0, Offender = ''AKIA1'', Rule = ''AWS'',
          LeakCommit = ''c2'', LeakAuthor = ''bob'', LeakMessage = ''rename'',
          File = ''old.txt'', Branch = []\<rparr> None = 3"
  by (simp add: example_defs csScan_def csCallback_def)

subsection \<open>C4: the findings of all parents and all chunks\<close>

text \<open>
  Claim C4: for a commit with several parents the single-commit scan returns the matches
  of the diffs against all parents and of all their chunks. The merge commit \<open>c3\<close> is
  diffed against both parents; the first diff has a match (\<open>AKIA1\<close>), the second diff has
  a match in its first chunk (\<open>AKIA2\<close>) and none in its last, and the scan returns no
  finding at all, since each scanned chunk replaces \<open>cs.leaks\<close>. The loop of the
  whole-history worker over the same file patches keeps both matches.
\<close>

theorem only_last_chunk_returned:
  "csScan exampleEnv (NewCommitScanner exampleEnv exampleBase commit3) = Returned ([], None)
   \<and> map Line (leaks (rsFilePatches exampleEnv commit3
          (FilePatches patch02 @ FilePatches patch01) (NewRepoScanner exampleBase))) = [''AKIA1'', ''AKIA2'']"
  by (simp add: example_defs csScan_def csCallback_def)

subsection \<open>C5: a parent that cannot be resolved, a tree that cannot be read\<close>

text \<open>
  Claim C5 has the whole-history walk continue with the next commit when a parent cannot
  be resolved. The callback returns the error of \<open>c.Parent(0)\<close>, which ends
  \<open>ForEach\<close>: in the history \<open>c4, c1\<close> the walk stops at \<open>c4\<close>, and the finding of \<open>c1\<close>,
  which a walk over \<open>c1\<close> alone reports, is never looked for.
\<close>

theorem walker_continues_after_parent_failure_counterexample:
  "rsScan (exampleEnv\<lparr>Log := Inr [Inr (Some commit4), Inr (Some commit1)]\<rparr>) (NewRepoScanner exampleBase)
     = Returned (None, \<lparr>rs_base = exampleBase, cc = 1, leaks = [], ticks = 1\<rparr>)
   \<and> rsScan (exampleEnv\<lparr>Log := Inr [Inr (Some commit1)]\<rparr>) (NewRepoScanner exampleBase) =
       Returned (None, \<lparr>rs_base = exampleBase, cc = 1,
         leaks = [\<lparr>Line = ''AKIA2'', LineNumber = 0, Offender = ''AKIA2'', Rule = ''AWS'',
                   LeakCommit = ''c1'', LeakAuthor = ''ann'', LeakMessage = ''adding tests'',
                   File = ''keys.txt'', Branch = []\<rparr>],
         ticks = 3\<rparr>)"
  by (simp add: example_defs rsScan_def rsCallback_def isCommitAllowListed_def)

text \<open>
  Claim C5, amended: if resolving the first parent of a commit fails, the whole-history
  walk ends at that commit: no later commit is examined, the findings gathered so far are
  kept, the commit has been counted, and \<open>Scan\<close> returns no error. In the single-commit
  scan a parent that cannot be resolved and a patch that cannot be generated end the
  parent loop, and \<open>Scan\<close> returns the error together with the findings it holds.
\<close>

theorem parent_failure_handling:
  "(logOptions env (opts (rs_base rs)) = None \<and> Log env = Inr (Inr (Some c) # rest)
      \<and> Parent0 env c = ParentErr e \<and> ParentHashes c \<noteq> []
      \<and> \<not> isCommitAllowListed (Hash c) (Commits (Allowlist (cfg (rs_base rs))))
      \<and> \<not> timeoutReached env (ticks rs) \<and> \<not> depthReached env 0 (opts (rs_base rs))
     \<longrightarrow> rsScan env rs = Returned (None, rs\<lparr>cc := 1, ticks := Suc (ticks rs)\<rparr>))
   \<and> (Parent0 env c = ParentErr e \<and> ParentHashes c \<noteq> []
      \<and> \<not> isCommitAllowListed (Hash c) (Commits (Allowlist (cfg (rs_base rs))))
      \<and> \<not> timeoutReached env (ticks rs) \<and> \<not> depthReached env (cc rs) (opts (rs_base rs))
     \<longrightarrow> ForEach (rsCallback env) (Inr (Some c) # rest) rs =
         Returned (if e = ErrStop then None else Some e, rs\<lparr>cc := cc rs + 1, ticks := Suc (ticks rs)\<rparr>))
   \<and> (Patch env p (commit cs) = PatchErr e' \<and> \<not> timeoutReached env (cs_ticks cs)
     \<longrightarrow> ForEach (csCallback env) (Inr (Some p) # rest') cs =
         Returned (Some (Err ''could not generate Patch''), cs\<lparr>cs_ticks := Suc (cs_ticks cs)\<rparr>))
   \<and> (ParentHashes (commit cs) \<noteq> [] \<and> Parents env (commit cs) = Inr (Some p) # rest'
      \<and> Patch env p (commit cs) = PatchErr e' \<and> \<not> timeoutReached env (cs_ticks cs)
     \<longrightarrow> csScan env cs = Returned (cs_leaks cs, Some (Err ''could not generate Patch'')))
   \<and> (ParentHashes (commit cs) \<noteq> [] \<and> Parents env (commit cs) = Inl (Err m) # rest'
     \<longrightarrow> csScan env cs = Returned (cs_leaks cs, Some (Err m)))"
proof -
  have walk: "ForEach (rsCallback env) (Inr (Some c) # rest) rs =
         Returned (if e = ErrStop then None else Some e, rs\<lparr>cc := cc rs + 1, ticks := Suc (ticks rs)\<rparr>)"
    if "Parent0 env c = ParentErr e" "ParentHashes c \<noteq> []"
      "\<not> isCommitAllowListed (Hash c) (Commits (Allowlist (cfg (rs_base rs))))"
      "\<not> timeoutReached env (ticks rs)" "\<not> depthReached env (cc rs) (opts (rs_base rs))" for rs
    using that by (cases e) (simp_all add: rsCallback_def Let_def)
  have scan: "rsScan env rs = Returned (None, rs\<lparr>cc := 1, ticks := Suc (ticks rs)\<rparr>)"
    if "logOptions env (opts (rs_base rs)) = None" "Log env = Inr (Inr (Some c) # rest)"
      "Parent0 env c = ParentErr e" "ParentHashes c \<noteq> []"
      "\<not> isCommitAllowListed (Hash c) (Commits (Allowlist (cfg (rs_base rs))))"
      "\<not> timeoutReached env (ticks rs)" "\<not> depthReached env 0 (opts (rs_base rs))"
    using that walk [of "rs\<lparr>cc := 0\<rparr>"] by (simp add: rsScan_def)
  have single: "ForEach (csCallback env) (Inr (Some p) # rest') cs =
         Returned (Some (Err ''could not generate Patch''), cs\<lparr>cs_ticks := Suc (cs_ticks cs)\<rparr>)"
    if "Patch env p (commit cs) = PatchErr e'" "\<not> timeoutReached env (cs_ticks cs)"
    using that by (simp add: csCallback_def Let_def)
  have single_scan: "csScan env cs = Returned (cs_leaks cs, Some (Err ''could not generate Patch''))"
    if "ParentHashes (commit cs) \<noteq> []" "Parents env (commit cs) = Inr (Some p) # rest'"
      "Patch env p (commit cs) = PatchErr e'" "\<not> timeoutReached env (cs_ticks cs)"
    using that single by (simp add: csScan_def)
  have unresolved: "csScan env cs = Returned (cs_leaks cs, Some (Err m))"
    if "ParentHashes (commit cs) \<noteq> []" "Parents env (commit cs) = Inl (Err m) # rest'"
    using that by (simp add: csScan_def)
  from walk [of rs] scan single single_scan unresolved show ?thesis by blast
qed

theorem parent_failure_handling_witness:
  "rsScan (exampleEnv\<lparr>Log := Inr [Inr (Some commit4), Inr (Some commit1)]\<rparr>) (NewRepoScanner exampleBase)
     = Returned (None, \<lparr>rs_base = exampleBase, cc = 1, leaks = [], ticks = 1\<rparr>)
   \<and> ForEach (rsCallback exampleEnv) [Inr (Some commit4), Inr (Some commit1)] (NewRepoScanner exampleBase)
     = Returned (Some (Err ''object not found''), \<lparr>rs_base = exampleBase, cc = 1, leaks = [], ticks = 1\<rparr>)
   \<and> ForEach (csCallback (exampleEnv\<lparr>Patch := \<lambda>p c. PatchErr (Err ''tree not found'')\<rparr>))
        [Inr (Some commit0)] (NewCommitScanner exampleEnv exampleBase commit1)
       = Returned (Some (Err ''could not generate Patch''),
           (NewCommitScanner exampleEnv exampleBase commit1)\<lparr>cs_ticks := 1\<rparr>)
   \<and> csScan (exampleEnv\<lparr>Patch := \<lambda>p c. PatchErr (Err ''tree not found'')\<rparr>)
        (NewCommitScanner exampleEnv exampleBase commit1)
       = Returned ([], Some (Err ''could not generate Patch''))
   \<and> csScan exampleEnv (NewCommitScanner exampleEnv exampleBase commit4)
       = Returned ([], Some (Err ''object not found''))"
proof -
  note t1 = parent_failure_handling [where env = "exampleEnv\<lparr>Log := Inr [Inr (Some commit4), Inr (Some commit1)]\<rparr>"
      and c = commit4 and rest = "[Inr (Some commit1)]" and e = "Err ''object not found''"
      and rs = "NewRepoScanner exampleBase"]
  note t2 = parent_failure_handling [where env = exampleEnv
      and c = commit4 and rest = "[Inr (Some commit1)]" and e = "Err ''object not found''"
      and rs = "NewRepoScanner exampleBase"
      and cs = "NewCommitScanner exampleEnv exampleBase commit4" and m = "''object not found''"
      and rest' = "[]"]
  note t3 = parent_failure_handling [where env = "exampleEnv\<lparr>Patch := \<lambda>p c. PatchErr (Err ''tree not found'')\<rparr>"
      and p = commit0 and cs = "NewCommitScanner exampleEnv exampleBase commit1"
      and e' = "Err ''tree not found''" and rest' = "[]"]
  have a: "rsScan (exampleEnv\<lparr>Log := Inr [Inr (Some commit4), Inr (Some commit1)]\<rparr>) (NewRepoScanner exampleBase)
     = Returned (None, \<lparr>rs_base = exampleBase, cc = 1, leaks = [], ticks = 1\<rparr>)"
    using t1 by (simp add: example_defs isCommitAllowListed_def)
  have b: "ForEach (rsCallback exampleEnv) [Inr (Some commit4), Inr (Some commit1)] (NewRepoScanner exampleBase)
     = Returned (Some (Err ''object not found''), \<lparr>rs_base = exampleBase, cc = 1, leaks = [], ticks = 1\<rparr>)"
    using t2 by (simp add: example_defs isCommitAllowListed_def)
  have c: "csScan exampleEnv (NewCommitScanner exampleEnv exampleBase commit4)
       = Returned ([], Some (Err ''object not found''))"
    using t2 by (simp add: example_defs)
  have d: "ForEach (csCallback (exampleEnv\<lparr>Patch := \<lambda>p c. PatchErr (Err ''tree not found'')\<rparr>))
        [Inr (Some commit0)] (NewCommitScanner exampleEnv exampleBase commit1)
       = Returned (Some (Err ''could not generate Patch''),
           (NewCommitScanner exampleEnv exampleBase commit1)\<lparr>cs_ticks := 1\<rparr>)"
    using t3 by (simp add: example_defs)
  have e: "csScan (exampleEnv\<lparr>Patch := \<lambda>p c. PatchErr (Err ''tree not found'')\<rparr>)
        (NewCommitScanner exampleEnv exampleBase commit1)
       = Returned ([], Some (Err ''could not generate Patch''))"
    using t3 by (simp add: example_defs)
  from a b c d e show ?thesis by blast
qed

subsection \<open>C6: a panic of the diff generation\<close>

text \<open>
  Claim C6: a panic that arises while the diff of a commit is generated is caught and
  counts as no findings for that commit, and the scan goes on with the next commit; it
  never reaches the caller and never ends the scan. In the whole-history scan, once the
  callback has reached \<open>parent.Patch(c)\<close> and that call panics, the walk continues with
  the rest of the history from a state in which only the counter and the timeout checks
  have advanced. In the single-commit scan a panic of \<open>parent.Patch\<close> moves the parent
  loop to the next parent with the findings unchanged. The single-commit scan always
  returns, and the whole-history scan returns whenever no diff ends with an error value,
  whatever diffs panic.
\<close>

theorem patch_panic_recovered:
  "(Patch env p c = PatchPanic \<and> Parent0 env c = ParentOk (Some p) \<and> ParentHashes c \<noteq> []
      \<and> \<not> isCommitAllowListed (Hash c) (Commits (Allowlist (cfg (rs_base rs))))
      \<and> \<not> timeoutReached env (ticks rs) \<and> \<not> depthReached env (cc rs) (opts (rs_base rs))
      \<and> \<not> timeoutReached env (Suc (ticks rs))
     \<longrightarrow> ForEach (rsCallback env) (Inr (Some c) # rest) rs =
         ForEach (rsCallback env) rest (rs\<lparr>cc := cc rs + 1, ticks := Suc (Suc (ticks rs))\<rparr>))
   \<and> (Patch env p (commit cs) = PatchPanic
     \<longrightarrow> ForEach (csCallback env) (Inr (Some p) # rest') cs =
         ForEach (csCallback env) rest' (cs\<lparr>cs_ticks := Suc (cs_ticks cs)\<rparr>))
   \<and> (\<exists>r. csScan env cs = Returned r)
   \<and> ((\<forall>p c e. Patch env p c \<noteq> PatchErr e) \<longrightarrow> (\<exists>r. rsScan env rs = Returned r))"
proof -
  have walk: "ForEach (rsCallback env) (Inr (Some c) # rest) rs =
         ForEach (rsCallback env) rest (rs\<lparr>cc := cc rs + 1, ticks := Suc (Suc (ticks rs))\<rparr>)"
    if "Patch env p c = PatchPanic" "Parent0 env c = ParentOk (Some p)" "ParentHashes c \<noteq> []"
      "\<not> isCommitAllowListed (Hash c) (Commits (Allowlist (cfg (rs_base rs))))"
      "\<not> timeoutReached env (ticks rs)" "\<not> depthReached env (cc rs) (opts (rs_base rs))"
      "\<not> timeoutReached env (Suc (ticks rs))"
    using that by (simp add: rsCallback_def Let_def)
  have single: "ForEach (csCallback env) (Inr (Some p) # rest') cs =
         ForEach (csCallback env) rest' (cs\<lparr>cs_ticks := Suc (cs_ticks cs)\<rparr>)"
    if "Patch env p (commit cs) = PatchPanic"
    using that by (simp add: csCallback_def Let_def)
  have whole: "\<exists>r. rsScan env rs = Returned r" if "\<forall>p c e. Patch env p c \<noteq> PatchErr e"
    using that rsScan_returns [of env rs] by blast
  from walk single whole csScan_returns [of env cs] show ?thesis by blast
qed

theorem patch_panic_recovered_witness:
  "Patch exampleEnv commit0 commit5 = PatchPanic
   \<and> ForEach (rsCallback exampleEnv) [Inr (Some commit5), Inr (Some commit1)] (NewRepoScanner exampleBase) =
       ForEach (rsCallback exampleEnv) [Inr (Some commit1)]
         \<lparr>rs_base = exampleBase, cc = 1, leaks = [], ticks = 2\<rparr>
   \<and> ForEach (csCallback exampleEnv) [Inr (Some commit0)] (NewCommitScanner exampleEnv exampleBase commit5)
       = Returned (None, (NewCommitScanner exampleEnv exampleBase commit5)\<lparr>cs_ticks := 1\<rparr>)
   \<and> rsScan exampleEnv (NewRepoScanner exampleBase) \<noteq> Panicked NilPointerDereference"
proof -
  have h: "Patch exampleEnv commit0 commit5 = PatchPanic" by (simp add: example_defs)
  have n: "\<forall>p c e. Patch exampleEnv p c \<noteq> PatchErr e" by (simp add: example_defs)
  note t = patch_panic_recovered [where env = exampleEnv and p = commit0 and c = commit5
      and rs = "NewRepoScanner exampleBase" and rest = "[Inr (Some commit1)]"
      and cs = "NewCommitScanner exampleEnv exampleBase commit5" and rest' = "[]"]
  have reached: "Parent0 exampleEnv commit5 = ParentOk (Some commit0) \<and> ParentHashes commit5 \<noteq> []
      \<and> \<not> isCommitAllowListed (Hash commit5)
            (Commits (Allowlist (cfg (rs_base (NewRepoScanner exampleBase)))))
      \<and> \<not> timeoutReached exampleEnv (ticks (NewRepoScanner exampleBase))
      \<and> \<not> depthReached exampleEnv (cc (NewRepoScanner exampleBase))
            (opts (rs_base (NewRepoScanner exampleBase)))
      \<and> \<not> timeoutReached exampleEnv (Suc (ticks (NewRepoScanner exampleBase)))"
    by (simp add: example_defs isCommitAllowListed_def)
  have state: "(NewRepoScanner exampleBase)\<lparr>cc := cc (NewRepoScanner exampleBase) + 1,
        ticks := Suc (Suc (ticks (NewRepoScanner exampleBase)))\<rparr>
      = \<lparr>rs_base = exampleBase, cc = 1, leaks = [], ticks = 2\<rparr>"
    by (simp add: NewRepoScanner_def)
  from t h reached
  have "ForEach (rsCallback exampleEnv) [Inr (Some commit5), Inr (Some commit1)] (NewRepoScanner exampleBase) =
       ForEach (rsCallback exampleEnv) [Inr (Some commit1)]
         ((NewRepoScanner exampleBase)\<lparr>cc := cc (NewRepoScanner exampleBase) + 1,
            ticks := Suc (Suc (ticks (NewRepoScanner exampleBase)))\<rparr>)"
    by blast
  then have a: "ForEach (rsCallback exampleEnv) [Inr (Some commit5), Inr (Some commit1)]
        (NewRepoScanner exampleBase) =
       ForEach (rsCallback exampleEnv) [Inr (Some commit1)]
         \<lparr>rs_base = exampleBase, cc = 1, leaks = [], ticks = 2\<rparr>"
    by (simp only: state)
  have b: "ForEach (csCallback exampleEnv) [Inr (Some commit0)] (NewCommitScanner exampleEnv exampleBase commit5)
       = Returned (None, (NewCommitScanner exampleEnv exampleBase commit5)\<lparr>cs_ticks := 1\<rparr>)"
    using t by (simp add: example_defs)
  have c: "rsScan exampleEnv (NewRepoScanner exampleBase) \<noteq> Panicked NilPointerDereference"
    using t n by auto
  from h a b c show ?thesis by blast
qed

subsection \<open>C7: which chunks are scanned\<close>

text \<open>
  Claim C7 has every Addition chunk of a non-binary file patch scanned. Both scanners
  check the timeout before each file patch and end the loop when it is reached: with a
  deadline that passes after two checks, the whole-history scan of \<open>c1\<close> computes the
  diff, takes up no file patch, and the Addition chunk \<open>AKIA2\<close> of the non-binary file
  patch \<open>keys.txt\<close> is not scanned; without the deadline the same scan reports it.
\<close>

theorem addition_chunk_after_timeout_counterexample:
  "rsCallback timedOutEnv (NewRepoScanner exampleBase) (Some commit1)
     = Returned (None, \<lparr>rs_base = exampleBase, cc = 1, leaks = [], ticks = 3\<rparr>)
   \<and> Patch timedOutEnv commit0 commit1 = PatchOk patch01
   \<and> FilePatches patch01 = [keysFile] \<and> \<not> IsBinary keysFile
   \<and> hd (Chunks keysFile) = \<lparr>Type = Add, Content = ''AKIA2''\<rparr>
   \<and> rsCallback exampleEnv (NewRepoScanner exampleBase) (Some commit1)
     = Returned (None, \<lparr>rs_base = exampleBase, cc = 1,
         leaks = [\<lparr>Line = ''AKIA2'', LineNumber = 0, Offender = ''AKIA2'', Rule = ''AWS'',
                   LeakCommit = ''c1'', LeakAuthor = ''ann'', LeakMessage = ''adding tests'',
                   File = ''keys.txt'', Branch = []\<rparr>],
         ticks = 3\<rparr>)"
  by (simp add: example_defs rsCallback_def isCommitAllowListed_def)

text \<open>
  Claim C7, amended: for every chunk of a non-binary file patch that a scanner takes up
  before the timeout is reached, the chunk's content is scanned for matches if and only
  if its change kind is Addition, or its change kind is Deletion and the include-deletions
  option is set; context chunks are never scanned, and neither are the chunks of a binary
  file patch or of a file patch that comes after the timeout. For the whole-history scan
  the findings a commit's diff adds are the matches of exactly these chunks, in the
  order of the patch; the single-commit scan runs the matcher on the same chunks and
  holds the matches of the last of them. Each scanner runs this loop on the file patches
  of every diff it generates.
\<close>

theorem chunks_scanned_before_timeout:
  "leaks (rsFilePatches env c fs rs) =
     leaks rs @ concat (map (\<lambda>(f, ch). checkRules env (cfg (rs_base rs)) [] (fromFirstPath f) c (Content ch))
                            (scannedChunks env (opts (rs_base rs)) (ticks rs) fs))
   \<and> cs_leaks (csFilePatches env patchContent fs cs) =
     (case rev (scannedChunks env (opts (cs_base cs)) (cs_ticks cs) fs) of
        [] \<Rightarrow> cs_leaks cs
      | (f, ch) # earlier \<Rightarrow> checkRules_cs env (cs_base cs) (commit cs) [] (fromFirstPath f) (Content ch))
   \<and> ((f, ch) \<in> set (scannedChunks env options k fs) \<longleftrightarrow>
        f \<in> set (taken env k fs) \<and> \<not> IsBinary f \<and> ch \<in> set (Chunks f)
        \<and> (Type ch = Add \<or> (Type ch = Delete \<and> Deletion options)))
   \<and> ((\<forall>i < length fs. \<not> timeoutReached env (k + i)) \<longrightarrow> taken env k fs = fs)
   \<and> (Patch env p c = PatchOk patch \<and> Parent0 env c = ParentOk (Some p) \<and> ParentHashes c \<noteq> []
        \<and> \<not> isCommitAllowListed (Hash c) (Commits (Allowlist (cfg (rs_base rs))))
        \<and> \<not> timeoutReached env (ticks rs) \<and> \<not> depthReached env (cc rs) (opts (rs_base rs))
        \<and> \<not> timeoutReached env (Suc (ticks rs))
       \<longrightarrow> rsCallback env rs (Some c) =
           Returned (if Hash c = CommitTo (opts (rs_base rs)) then Some ErrStop else None,
             rsFilePatches env c (FilePatches patch)
               (rs\<lparr>cc := cc rs + 1, ticks := Suc (Suc (ticks rs))\<rparr>)))
   \<and> (Patch env p (commit cs) = PatchOk patch \<and> \<not> timeoutReached env (cs_ticks cs)
       \<longrightarrow> csCallback env cs (Some p) =
           Returned (None, csFilePatches env (patchString patch) (FilePatches patch)
                             (cs\<lparr>cs_ticks := Suc (cs_ticks cs)\<rparr>)))"
proof -
  have whole: "rsCallback env rs (Some c) =
           Returned (if Hash c = CommitTo (opts (rs_base rs)) then Some ErrStop else None,
             rsFilePatches env c (FilePatches patch)
               (rs\<lparr>cc := cc rs + 1, ticks := Suc (Suc (ticks rs))\<rparr>))"
    if "Patch env p c = PatchOk patch" "Parent0 env c = ParentOk (Some p)" "ParentHashes c \<noteq> []"
      "\<not> isCommitAllowListed (Hash c) (Commits (Allowlist (cfg (rs_base rs))))"
      "\<not> timeoutReached env (ticks rs)" "\<not> depthReached env (cc rs) (opts (rs_base rs))"
      "\<not> timeoutReached env (Suc (ticks rs))"
    using that by (simp add: rsCallback_def Let_def rsFilePatches_base)
  have single: "csCallback env cs (Some p) =
           Returned (None, csFilePatches env (patchString patch) (FilePatches patch)
                             (cs\<lparr>cs_ticks := Suc (cs_ticks cs)\<rparr>))"
    if "Patch env p (commit cs) = PatchOk patch" "\<not> timeoutReached env (cs_ticks cs)"
    using that by (simp add: csCallback_def Let_def)
  have all: "taken env k fs = fs" if "\<forall>i < length fs. \<not> timeoutReached env (k + i)"
    using that by (rule taken_all)
  from whole single all rsFilePatches_leaks [of env c fs rs]
    csFilePatches_leaks [of env patchContent fs cs]
    scannedChunks_member [of f ch env options k fs]
  show ?thesis by blast
qed

theorem chunks_scanned_before_timeout_witness:
  "map Line (leaks (rsFilePatches exampleEnv commit1 [imageFile, keysFile, renamedFile]
       (NewRepoScanner exampleBase))) = [''AKIA2'', ''AKIA1'']
   \<and> map Line (leaks (rsFilePatches exampleEnv commit1 [imageFile, keysFile, renamedFile]
       (NewRepoScanner (exampleBase\<lparr>opts := exampleOptions\<lparr>Deletion := True\<rparr>\<rparr>))))
       = [''AKIA2'', ''AKIA3'', ''AKIA1'']
   \<and> map Line (leaks (rsFilePatches timedOutEnv commit1 [imageFile, keysFile, renamedFile]
       (NewRepoScanner exampleBase))) = [''AKIA2'']
   \<and> map Line (cs_leaks (csFilePatches exampleEnv [] [imageFile, keysFile, renamedFile]
       (NewCommitScanner exampleEnv exampleBase commit1))) = [''AKIA1'']
   \<and> taken exampleEnv 0 [imageFile, keysFile, renamedFile] = [imageFile, keysFile, renamedFile]
   \<and> (keysFile, \<lparr>Type = Add, Content = ''AKIA2''\<rparr>)
        \<in> set (scannedChunks exampleEnv exampleOptions 0 [imageFile, keysFile, renamedFile])
   \<and> (renamedFile, \<lparr>Type = Equal, Content = ''AKIA0''\<rparr>)
        \<notin> set (scannedChunks exampleEnv exampleOptions 0 [imageFile, keysFile, renamedFile])
   \<and> (imageFile, \<lparr>Type = Add, Content = ''AKIA4''\<rparr>)
        \<notin> set (scannedChunks exampleEnv exampleOptions 0 [imageFile, keysFile, renamedFile])
   \<and> rsCallback exampleEnv (NewRepoScanner exampleBase) (Some commit1) =
       Returned (None, rsFilePatches exampleEnv commit1 [keysFile]
                         \<lparr>rs_base = exampleBase, cc = 1, leaks = [], ticks = 2\<rparr>)
   \<and> csCallback exampleEnv (NewCommitScanner exampleEnv exampleBase commit1) (Some commit0) =
       Returned (None, csFilePatches exampleEnv (patchString patch01) [keysFile]
                         ((NewCommitScanner exampleEnv exampleBase commit1)\<lparr>cs_ticks := 1\<rparr>))"
proof -
  let ?fs = "[imageFile, keysFile, renamedFile]"
  note t1 = chunks_scanned_before_timeout [where env = exampleEnv and c = commit1 and fs = ?fs
      and rs = "NewRepoScanner exampleBase" and cs = "NewCommitScanner exampleEnv exampleBase commit1"
      and patchContent = "[]" and k = 0 and options = exampleOptions
      and f = keysFile and ch = "\<lparr>Type = Add, Content = ''AKIA2''\<rparr>"
      and p = commit0 and patch = patch01]
  note t2 = chunks_scanned_before_timeout [where env = exampleEnv and c = commit1 and fs = ?fs
      and rs = "NewRepoScanner (exampleBase\<lparr>opts := exampleOptions\<lparr>Deletion := True\<rparr>\<rparr>)"]
  note t3 = chunks_scanned_before_timeout [where env = timedOutEnv and c = commit1 and fs = ?fs
      and rs = "NewRepoScanner exampleBase"]
  note t4 = chunks_scanned_before_timeout [where env = exampleEnv and fs = ?fs
      and k = 0 and options = exampleOptions
      and f = renamedFile and ch = "\<lparr>Type = Equal, Content = ''AKIA0''\<rparr>"]
  note t5 = chunks_scanned_before_timeout [where env = exampleEnv and fs = ?fs
      and k = 0 and options = exampleOptions
      and f = imageFile and ch = "\<lparr>Type = Add, Content = ''AKIA4''\<rparr>"]
  have all: "taken exampleEnv 0 ?fs = ?fs"
    using t1 by (simp add: exampleEnv_def)
  have a: "map Line (leaks (rsFilePatches exampleEnv commit1 ?fs (NewRepoScanner exampleBase)))
      = [''AKIA2'', ''AKIA1'']"
    using t1 by (simp add: example_defs scannedChunks_def selected_def fromFirstPath_def)
  have b: "map Line (leaks (rsFilePatches exampleEnv commit1 ?fs
       (NewRepoScanner (exampleBase\<lparr>opts := exampleOptions\<lparr>Deletion := True\<rparr>\<rparr>))))
       = [''AKIA2'', ''AKIA3'', ''AKIA1'']"
    using t2 by (simp add: example_defs scannedChunks_def selected_def fromFirstPath_def)
  have c: "map Line (leaks (rsFilePatches timedOutEnv commit1 ?fs (NewRepoScanner exampleBase)))
      = [''AKIA2'']"
    using t3 by (simp add: example_defs scannedChunks_def selected_def fromFirstPath_def)
  have d: "map Line (cs_leaks (csFilePatches exampleEnv [] ?fs
       (NewCommitScanner exampleEnv exampleBase commit1))) = [''AKIA1'']"
    using t1 by (simp add: example_defs scannedChunks_def selected_def fromFirstPath_def)
  have e: "(keysFile, \<lparr>Type = Add, Content = ''AKIA2''\<rparr>)
        \<in> set (scannedChunks exampleEnv exampleOptions 0 ?fs)"
    using t1 all by (simp add: keysFile_def imageFile_def renamedFile_def)
  have f: "(renamedFile, \<lparr>Type = Equal, Content = ''AKIA0''\<rparr>)
        \<notin> set (scannedChunks exampleEnv exampleOptions 0 ?fs)"
    using t4 by simp
  have g: "(imageFile, \<lparr>Type = Add, Content = ''AKIA4''\<rparr>)
        \<notin> set (scannedChunks exampleEnv exampleOptions 0 ?fs)"
    using t5 by (simp add: imageFile_def)
  have reached: "Patch exampleEnv commit0 commit1 = PatchOk patch01
      \<and> Parent0 exampleEnv commit1 = ParentOk (Some commit0) \<and> ParentHashes commit1 \<noteq> []
      \<and> \<not> isCommitAllowListed (Hash commit1)
            (Commits (Allowlist (cfg (rs_base (NewRepoScanner exampleBase)))))
      \<and> \<not> timeoutReached exampleEnv (ticks (NewRepoScanner exampleBase))
      \<and> \<not> depthReached exampleEnv (cc (NewRepoScanner exampleBase))
            (opts (rs_base (NewRepoScanner exampleBase)))
      \<and> \<not> timeoutReached exampleEnv (Suc (ticks (NewRepoScanner exampleBase)))"
    by (simp add: example_defs isCommitAllowListed_def)
  have stop: "Hash commit1 \<noteq> CommitTo (opts (rs_base (NewRepoScanner exampleBase)))"
    by (simp add: example_defs)
  have state: "(NewRepoScanner exampleBase)\<lparr>cc := cc (NewRepoScanner exampleBase) + 1,
        ticks := Suc (Suc (ticks (NewRepoScanner exampleBase)))\<rparr>
      = \<lparr>rs_base = exampleBase, cc = 1, leaks = [], ticks = 2\<rparr>"
    by (simp add: NewRepoScanner_def)
  have files: "FilePatches patch01 = [keysFile]" by (simp add: patch01_def)
  from t1 reached stop
  have "rsCallback exampleEnv (NewRepoScanner exampleBase) (Some commit1) =
       Returned (None, rsFilePatches exampleEnv commit1 (FilePatches patch01)
         ((NewRepoScanner exampleBase)\<lparr>cc := cc (NewRepoScanner exampleBase) + 1,
            ticks := Suc (Suc (ticks (NewRepoScanner exampleBase)))\<rparr>))"
    by auto
  then have h: "rsCallback exampleEnv (NewRepoScanner exampleBase) (Some commit1) =
       Returned (None, rsFilePatches exampleEnv commit1 [keysFile]
                         \<lparr>rs_base = exampleBase, cc = 1, leaks = [], ticks = 2\<rparr>)"
    by (simp only: state files)
  have reached_cs: "Patch exampleEnv commit0 (commit (NewCommitScanner exampleEnv exampleBase commit1))
        = PatchOk patch01
      \<and> \<not> timeoutReached exampleEnv (cs_ticks (NewCommitScanner exampleEnv exampleBase commit1))"
    by (simp add: example_defs)
  have ticks_cs: "Suc (cs_ticks (NewCommitScanner exampleEnv exampleBase commit1)) = 1"
    by (simp add: NewCommitScanner_def)
  from t1 reached_cs
  have "csCallback exampleEnv (NewCommitScanner exampleEnv exampleBase commit1) (Some commit0) =
       Returned (None, csFilePatches exampleEnv (patchString patch01) (FilePatches patch01)
         ((NewCommitScanner exampleEnv exampleBase commit1)
            \<lparr>cs_ticks := Suc (cs_ticks (NewCommitScanner exampleEnv exampleBase commit1))\<rparr>))"
    by blast
  then have i: "csCallback exampleEnv (NewCommitScanner exampleEnv exampleBase commit1) (Some commit0) =
       Returned (None, csFilePatches exampleEnv (patchString patch01) [keysFile]
                         ((NewCommitScanner exampleEnv exampleBase commit1)\<lparr>cs_ticks := 1\<rparr>))"
    by (simp only: ticks_cs files)
  from a b c d all e f g h i show ?thesis by blast
qed

subsection \<open>C8: which commits are skipped\<close>

text \<open>
  Claim C8 has a commit skipped when its message contains an allowlisted message
  substring. The message of \<open>c1\<close> contains the allowlisted substring \<open>tests\<close> and its hash is
  not allowlisted: the whole-history scan counts the commit, computes its diff and runs
  the matcher on it, which here reports the finding.
\<close>

theorem message_allowlist_counterexample:
  "Contains (Message commit1) ''tests'' \<and> ''tests'' \<in> set (Messages (Allowlist (cfg exampleBase)))
   \<and> rsCallback exampleEnv (NewRepoScanner exampleBase) (Some commit1) =
       Returned (None, \<lparr>rs_base = exampleBase, cc = 1,
         leaks = [\<lparr>Line = ''AKIA2'', LineNumber = 0, Offender = ''AKIA2'', Rule = ''AWS'',
                   LeakCommit = ''c1'', LeakAuthor = ''ann'', LeakMessage = ''adding tests'',
                   File = ''keys.txt'', Branch = []\<rparr>],
         ticks = 3\<rparr>)"
  by (simp add: example_defs rsCallback_def isCommitAllowListed_def)

text \<open>
  Claim C8, amended: in the whole-history scan a commit for which the callback is entered
  (no timeout, depth not reached) is skipped in its entirety, before it is counted, before
  its parent is resolved and before any diff is computed, if and only if its hash is in
  the allowlisted-commit set, whatever the commit's message is and whatever message
  substrings the allowlist holds.
\<close>

theorem commit_skipped_by_hash_only:
  "(\<not> timeoutReached env (ticks rs) \<and> \<not> depthReached env (cc rs) (opts (rs_base rs)) \<longrightarrow>
      (rsCallback env rs (Some c) = Returned (None, rs\<lparr>ticks := Suc (ticks rs)\<rparr>)
         \<longleftrightarrow> Hash c \<in> set (Commits (Allowlist (cfg (rs_base rs))))))
   \<and> (\<not> timeoutReached env (ticks rs) \<and> \<not> depthReached env (cc rs) (opts (rs_base rs)) \<longrightarrow>
      (rsCallback env (withMessages ms rs) (Some (c\<lparr>Message := m\<rparr>))
          = Returned (None, (withMessages ms rs)\<lparr>ticks := Suc (ticks rs)\<rparr>)
         \<longleftrightarrow> Hash c \<in> set (Commits (Allowlist (cfg (rs_base rs))))))"
proof -
  have skip: "rsCallback env rs (Some c) = Returned (None, rs\<lparr>ticks := Suc (ticks rs)\<rparr>)
         \<longleftrightarrow> Hash c \<in> set (Commits (Allowlist (cfg (rs_base rs))))"
    if t: "\<not> timeoutReached env (ticks rs)" and d: "\<not> depthReached env (cc rs) (opts (rs_base rs))"
    for rs c
  proof
    assume r: "rsCallback env rs (Some c) = Returned (None, rs\<lparr>ticks := Suc (ticks rs)\<rparr>)"
    show "Hash c \<in> set (Commits (Allowlist (cfg (rs_base rs))))"
    proof (rule ccontr)
      assume "Hash c \<notin> set (Commits (Allowlist (cfg (rs_base rs))))"
      with rsCallback_cc [OF r t d] show False by (simp add: isCommitAllowListed_def)
    qed
  next
    assume "Hash c \<in> set (Commits (Allowlist (cfg (rs_base rs))))"
    with t d show "rsCallback env rs (Some c) = Returned (None, rs\<lparr>ticks := Suc (ticks rs)\<rparr>)"
      by (simp add: rsCallback_def isCommitAllowListed_def)
  qed
  have same: "ticks (withMessages ms rs) = ticks rs" "cc (withMessages ms rs) = cc rs"
    "opts (rs_base (withMessages ms rs)) = opts (rs_base rs)"
    "Commits (Allowlist (cfg (rs_base (withMessages ms rs)))) = Commits (Allowlist (cfg (rs_base rs)))"
    "Hash (c\<lparr>Message := m\<rparr>) = Hash c"
    by (simp_all add: withMessages_def)
  have other: "rsCallback env (withMessages ms rs) (Some (c\<lparr>Message := m\<rparr>))
          = Returned (None, (withMessages ms rs)\<lparr>ticks := Suc (ticks rs)\<rparr>)
         \<longleftrightarrow> Hash c \<in> set (Commits (Allowlist (cfg (rs_base rs))))"
    if "\<not> timeoutReached env (ticks rs)" "\<not> depthReached env (cc rs) (opts (rs_base rs))"
    using that skip [of "withMessages ms rs" "c\<lparr>Message := m\<rparr>", unfolded same] by blast
  from skip [of rs c] other show ?thesis by blast
qed

theorem commit_skipped_by_hash_only_witness:
  "rsCallback exampleEnv (NewRepoScanner exampleBase) (Some commit2)
     = Returned (None, \<lparr>rs_base = exampleBase, cc = 0, leaks = [], ticks = 1\<rparr>)
   \<and> rsCallback exampleEnv (NewRepoScanner exampleBase) (Some commit1)
     \<noteq> Returned (None, \<lparr>rs_base = exampleBase, cc = 0, leaks = [], ticks = 1\<rparr>)
   \<and> rsCallback exampleEnv (withMessages [''adding''] (NewRepoScanner exampleBase))
        (Some (commit1\<lparr>Message := ''adding keys''\<rparr>))
     \<noteq> Returned (None, (withMessages [''adding''] (NewRepoScanner exampleBase))\<lparr>ticks := 1\<rparr>)"
proof -
  note t2 = commit_skipped_by_hash_only [where env = exampleEnv and rs = "NewRepoScanner exampleBase"
      and c = commit2]
  note t1 = commit_skipped_by_hash_only [where env = exampleEnv and rs = "NewRepoScanner exampleBase"
      and c = commit1 and ms = "[''adding'']" and m = "''adding keys''"]
  have entered: "\<not> timeoutReached exampleEnv (ticks (NewRepoScanner exampleBase))
      \<and> \<not> depthReached exampleEnv (cc (NewRepoScanner exampleBase))
            (opts (rs_base (NewRepoScanner exampleBase)))"
    by (simp add: example_defs)
  have in2: "Hash commit2 \<in> set (Commits (Allowlist (cfg (rs_base (NewRepoScanner exampleBase)))))"
    by (simp add: example_defs)
  have out1: "Hash commit1 \<notin> set (Commits (Allowlist (cfg (rs_base (NewRepoScanner exampleBase)))))"
    by (simp add: example_defs)
  have state: "(NewRepoScanner exampleBase)\<lparr>ticks := Suc (ticks (NewRepoScanner exampleBase))\<rparr>
      = \<lparr>rs_base = exampleBase, cc = 0, leaks = [], ticks = 1\<rparr>"
    and one: "Suc (ticks (NewRepoScanner exampleBase)) = 1"
    by (simp_all add: NewRepoScanner_def)
  from t2 entered in2
  have "rsCallback exampleEnv (NewRepoScanner exampleBase) (Some commit2)
     = Returned (None, (NewRepoScanner exampleBase)\<lparr>ticks := Suc (ticks (NewRepoScanner exampleBase))\<rparr>)"
    by blast
  then have a: "rsCallback exampleEnv (NewRepoScanner exampleBase) (Some commit2)
     = Returned (None, \<lparr>rs_base = exampleBase, cc = 0, leaks = [], ticks = 1\<rparr>)"
    by (simp only: state)
  from t1 entered out1
  have "rsCallback exampleEnv (NewRepoScanner exampleBase) (Some commit1)
     \<noteq> Returned (None, (NewRepoScanner exampleBase)\<lparr>ticks := Suc (ticks (NewRepoScanner exampleBase))\<rparr>)"
    by blast
  then have b: "rsCallback exampleEnv (NewRepoScanner exampleBase) (Some commit1)
     \<noteq> Returned (None, \<lparr>rs_base = exampleBase, cc = 0, leaks = [], ticks = 1\<rparr>)"
    by (simp add: state)
  from t1 entered out1
  have "rsCallback exampleEnv (withMessages [''adding''] (NewRepoScanner exampleBase))
        (Some (commit1\<lparr>Message := ''adding keys''\<rparr>))
     \<noteq> Returned (None, (withMessages [''adding''] (NewRepoScanner exampleBase))
                         \<lparr>ticks := Suc (ticks (NewRepoScanner exampleBase))\<rparr>)"
    by blast
  then have c: "rsCallback exampleEnv (withMessages [''adding''] (NewRepoScanner exampleBase))
        (Some (commit1\<lparr>Message := ''adding keys''\<rparr>))
     \<noteq> Returned (None, (withMessages [''adding''] (NewRepoScanner exampleBase))\<lparr>ticks := 1\<rparr>)"
    by (simp add: one)
  from a b c show ?thesis by blast
qed

subsection \<open>C10: allowlist entries and the nil map\<close>

text \<open>
  Claim C10 has every configuration with an allowlisted commit or message end in the
  write into the nil map \<open>whiteListCommits\<close>. A configuration with an allowlisted commit
  and a rule pattern that does not compile ends earlier, in \<open>regexp.MustCompile\<close>; the map
  is never written.
\<close>

theorem nil_map_counterexample:
  "loadToml exampleLoadEnv ''broken.toml'' initGlobals = Panicked (MustCompile ''('')
   \<and> resolveConfig exampleLoadEnv ''broken.toml'' = Inr brokenConfig
   \<and> wCommits (Whitelist brokenConfig) = [''BADHA5H1'']"
  by (simp add: load_defs)

text \<open>
  Claim C10, amended: for every loaded configuration that contains at least one
  allowlisted commit hash or at least one allowlisted commit message, \<open>loadToml\<close> aborts
  abnormally instead of returning: by the write into the never-initialized nil map
  \<open>whiteListCommits\<close> when the rule patterns compile or a single-search pattern is set,
  and in \<open>regexp.MustCompile\<close>, before any allowlist entry is touched, when a rule pattern
  does not compile and no single-search pattern is set. Configuration loading completes
  normally only when both of those allowlist lists are empty.
\<close>

theorem allowlist_entries_abort_loading:
  "(resolveConfig env path = Inr config
      \<and> (wCommits (Whitelist config) \<noteq> [] \<or> wMessages (Whitelist config) \<noteq> [])
     \<longrightarrow> (\<exists>p. loadToml env path (initGlobals\<lparr>singleSearchRegex := s\<rparr>) = Panicked p)
       \<and> (s \<noteq> None \<or> (\<forall>r \<in> set (Regexes config). regexpCompiles env (Regex r))
          \<longrightarrow> loadToml env path (initGlobals\<lparr>singleSearchRegex := s\<rparr>) = Panicked NilMapAssignment)
       \<and> (s = None \<and> \<not> (\<forall>r \<in> set (Regexes config). regexpCompiles env (Regex r))
          \<longrightarrow> (\<exists>pat. loadToml env path (initGlobals\<lparr>singleSearchRegex := s\<rparr>) = Panicked (MustCompile pat)
                 \<and> \<not> regexpCompiles env pat)))
   \<and> (loadToml env path (initGlobals\<lparr>singleSearchRegex := s\<rparr>) = Returned (None, g')
     \<longrightarrow> (\<exists>config. resolveConfig env path = Inr config
            \<and> wCommits (Whitelist config) = [] \<and> wMessages (Whitelist config) = []))"
proof -
  let ?g = "initGlobals\<lparr>singleSearchRegex := s\<rparr>"
  have nil: "whiteListCommits ?g = None"
    by (simp add: initGlobals_def)
  have patterns_ok: "loadToml env path ?g = Panicked NilMapAssignment"
    if r: "resolveConfig env path = Inr config"
      and e: "wCommits (Whitelist config) \<noteq> [] \<or> wMessages (Whitelist config) \<noteq> []"
      and c: "s \<noteq> None \<or> (\<forall>r \<in> set (Regexes config). regexpCompiles env (Regex r))"
  proof (cases s)
    case (Some re)
    have "(case singleSearchRegex ?g of
              Some re \<Rightarrow> mapAssign (regexes ?g) ''singleSearch'' re
            | None \<Rightarrow> loadRegexes env (Regexes config) (regexes ?g))
          = Returned (Some (Map.empty(''singleSearch'' \<mapsto> re)))"
      using Some by (simp add: initGlobals_def mapAssign_def)
    from loadConfig_nil_map [OF e nil this] r show ?thesis by (simp add: loadToml_def)
  next
    case None
    with c have all: "\<forall>r \<in> set (Regexes config). regexpCompiles env (Regex r)" by simp
    from loadRegexes_compile [OF all, of Map.empty] obtain t'
      where "loadRegexes env (Regexes config) (Some Map.empty) = Returned (Some t')" by blast
    then have "(case singleSearchRegex ?g of
              Some re \<Rightarrow> mapAssign (regexes ?g) ''singleSearch'' re
            | None \<Rightarrow> loadRegexes env (Regexes config) (regexes ?g)) = Returned (Some t')"
      using None by (simp add: initGlobals_def)
    from loadConfig_nil_map [OF e nil this] r show ?thesis by (simp add: loadToml_def)
  qed
  have patterns_bad: "\<exists>pat. loadToml env path ?g = Panicked (MustCompile pat) \<and> \<not> regexpCompiles env pat"
    if r: "resolveConfig env path = Inr config" and n: "s = None"
      and c: "\<not> (\<forall>r \<in> set (Regexes config). regexpCompiles env (Regex r))"
  proof -
    from loadRegexes_reject [OF c, of Map.empty] obtain pat
      where "loadRegexes env (Regexes config) (Some Map.empty) = Panicked (MustCompile pat)"
        and "\<not> regexpCompiles env pat" by blast
    with r n show ?thesis by (auto simp: loadToml_def loadConfig_def initGlobals_def)
  qed
  have aborts: "\<exists>p. loadToml env path ?g = Panicked p"
    if r: "resolveConfig env path = Inr config"
      and e: "wCommits (Whitelist config) \<noteq> [] \<or> wMessages (Whitelist config) \<noteq> []"
    using patterns_ok [OF r e] patterns_bad [OF r] by blast
  have normal: "\<exists>config. resolveConfig env path = Inr config
            \<and> wCommits (Whitelist config) = [] \<and> wMessages (Whitelist config) = []"
    if l: "loadToml env path ?g = Returned (None, g')"
  proof (cases "resolveConfig env path")
    case (Inl e)
    with l show ?thesis by (simp add: loadToml_def)
  next
    case (Inr config)
    with l have "loadConfig env config ?g = Returned (None, g')" by (simp add: loadToml_def)
    from loadConfig_returns_empty [OF this nil] Inr show ?thesis by simp
  qed
  from patterns_ok patterns_bad aborts normal show ?thesis by blast
qed

theorem allowlist_entries_abort_loading_witness:
  "loadToml exampleLoadEnv ''allow.toml'' initGlobals = Panicked NilMapAssignment
   \<and> loadToml exampleLoadEnv ''broken.toml'' (initGlobals\<lparr>singleSearchRegex := Some ''AKIA''\<rparr>)
       = Panicked NilMapAssignment
   \<and> loadToml exampleLoadEnv ''broken.toml'' initGlobals \<noteq> Panicked NilMapAssignment
   \<and> loadToml exampleLoadEnv [] initGlobals
       = Returned (None, initGlobals\<lparr>regexes := Some [''AWS'' \<mapsto> ''AKIA[0-9A-Z]{16}'']\<rparr>)
   \<and> wCommits (Whitelist plainConfig) = [] \<and> wMessages (Whitelist plainConfig) = []"
proof -
  note t1 = allowlist_entries_abort_loading [where env = exampleLoadEnv and path = "''allow.toml''"
      and config = allowConfig and s = None]
  note t2 = allowlist_entries_abort_loading [where env = exampleLoadEnv and path = "''broken.toml''"
      and config = brokenConfig and s = "Some ''AKIA''"]
  note t3 = allowlist_entries_abort_loading [where env = exampleLoadEnv and path = "''broken.toml''"
      and config = brokenConfig and s = None]
  note t4 = allowlist_entries_abort_loading [where env = exampleLoadEnv and path = "[]" and s = None
      and g' = "initGlobals\<lparr>regexes := Some [''AWS'' \<mapsto> ''AKIA[0-9A-Z]{16}'']\<rparr>"]
  have r1: "resolveConfig exampleLoadEnv ''allow.toml'' = Inr allowConfig"
    and r2: "resolveConfig exampleLoadEnv ''broken.toml'' = Inr brokenConfig"
    and r4: "resolveConfig exampleLoadEnv [] = Inr plainConfig"
    by (simp_all add: exampleLoadEnv_def resolveConfig_def)
  have l4: "loadToml exampleLoadEnv [] initGlobals
      = Returned (None, initGlobals\<lparr>regexes := Some [''AWS'' \<mapsto> ''AKIA[0-9A-Z]{16}'']\<rparr>)"
    by (simp add: load_defs)
  have a: "loadToml exampleLoadEnv ''allow.toml'' initGlobals = Panicked NilMapAssignment"
    using t1 r1 by (simp add: allowConfig_def exampleLoadEnv_def initGlobals_def)
  have b: "loadToml exampleLoadEnv ''broken.toml'' (initGlobals\<lparr>singleSearchRegex := Some ''AKIA''\<rparr>)
       = Panicked NilMapAssignment"
    using t2 r2 by (simp add: brokenConfig_def)
  have c: "loadToml exampleLoadEnv ''broken.toml'' initGlobals \<noteq> Panicked NilMapAssignment"
    using t3 r2 by (auto simp: brokenConfig_def exampleLoadEnv_def initGlobals_def)
  have d: "wCommits (Whitelist plainConfig) = [] \<and> wMessages (Whitelist plainConfig) = []"
    using t4 r4 l4 by (simp add: initGlobals_def)
  from a b c d l4 show ?thesis by blast
qed

end
